theory Spec2Isabelle
  imports Main "HOL-Library.Word"
begin

section \<open>JavaScript values\<close>

text \<open>
  The repository is one class, \<open>TAPContextGot\<close>, in two variants: \<^verbatim>\<open>src/index.js\<close>
  (operations \<open>api\<close>, \<open>json\<close>, \<open>post\<close>) and \<^verbatim>\<open>src/unnamed/part_000\<close> (operations
  \<open>api\<close>, \<open>json\<close>, \<open>_withBody\<close>, \<open>post\<close>, \<open>put\<close>, \<open>delete\<close>). Definitions named after
  a method embed the method of \<^verbatim>\<open>part_000\<close>; the embedding of the \<^verbatim>\<open>index.js\<close> method of
  the same name carries the suffix \<open>_index\<close>.

  A thrown value is an error with a name and a message.
\<close>

datatype js_error = JsError (err_name: string) (err_message: string)

text \<open>
  The multipart capability (package \<open>multi-part\<close>): \<open>buffer()\<close> is a promise of the
  payload's bytes, which resolves or rejects; \<open>getHeaders(chunked)\<close> is a synchronous header
  mapping that depends on the flag.
\<close>

record multipart =
  mp_buffer :: "js_error + 8 word list"
  mp_getHeaders :: "bool \<Rightarrow> (string \<times> string) list"

text \<open>
  Values. Numbers are integers. \<open>Func r\<close> is a function taking no argument, \<open>r\<close> being
  what one invocation does: it throws (\<open>Inl\<close>) or returns (\<open>Inr\<close>); that it was invoked is
  recorded in the trace of events below. \<open>CacheMap\<close> and \<open>CookieJar\<close> are the objects
  \<open>new Map()\<close> and \<open>new CookieJar()\<close> of the default options.
\<close>

datatype jsval =
    Undefined
  | Null
  | Bool bool
  | Num int
  | Str string
  | Arr "jsval list"
  | Obj "(string \<times> jsval) list"
  | Func "js_error + jsval"
  | Multipart multipart
  | Buffer "8 word list"
  | CacheMap
  | CookieJar

text \<open>
  An object is the list of its property definitions in the order they were made, as in an
  object literal: a later definition of a key overrides an earlier one. So the literal
  \<open>{...a, ...b, k: v}\<close> is \<open>a @ b @ [(k, v)]\<close>.
\<close>

type_synonym jsobj = "(string \<times> jsval) list"

definition own :: "(string \<times> 'a) list \<Rightarrow> string \<Rightarrow> 'a option" where
  "own obj k = map_of (rev obj) k"

definition has_own :: "jsobj \<Rightarrow> string \<Rightarrow> bool" where
  "has_own obj k = (k \<in> fst ` set obj)"

text \<open>\<open>obj.k\<close>: reading a property that is not there gives \<open>undefined\<close>.\<close>

definition get_prop :: "jsobj \<Rightarrow> string \<Rightarrow> jsval" where
  "get_prop obj k = (case own obj k of None \<Rightarrow> Undefined | Some v \<Rightarrow> v)"

text \<open>\<open>obj.k = v\<close> and \<open>delete obj.k\<close>.\<close>

definition assign :: "jsobj \<Rightarrow> string \<Rightarrow> jsval \<Rightarrow> jsobj" where
  "assign obj k v = obj @ [(k, v)]"

definition delete_prop :: "jsobj \<Rightarrow> string \<Rightarrow> jsobj" where
  "delete_prop obj k = filter (\<lambda>kv. fst kv \<noteq> k) obj"

text \<open>\<open>!v\<close> is \<open>\<not> truthy v\<close>: the falsy values are \<open>undefined\<close>, \<open>null\<close>, \<open>false\<close>, \<open>0\<close> and \<open>''\<close>.\<close>

fun truthy :: "jsval \<Rightarrow> bool" where
  "truthy Undefined = False"
| "truthy Null = False"
| "truthy (Bool b) = b"
| "truthy (Num n) = (n \<noteq> 0)"
| "truthy (Str s) = (s \<noteq> [])"
| "truthy _ = True"

text \<open>Decimal digits of a natural number, for array indices and numeric property keys.\<close>

fun show_nat :: "nat \<Rightarrow> string" where
  "show_nat n =
     (if n < 10 then [''0123456789'' ! n]
      else show_nat (n div 10) @ [''0123456789'' ! (n mod 10)])"

declare show_nat.simps [simp del]

definition show_int :: "int \<Rightarrow> string" where
  "show_int i = (if i < 0 then CHR ''-'' # show_nat (nat (- i)) else show_nat (nat i))"

definition indexed :: "'a list \<Rightarrow> (string \<times> 'a) list" where
  "indexed xs = zip (map show_nat [0..<length xs]) xs"

text \<open>
  \<open>{...v}\<close>: the own enumerable properties of \<open>v\<close>. Spreading \<open>undefined\<close>, \<open>null\<close>, a
  boolean or a number adds nothing; a string, an array and a buffer spread into their indexed
  elements. Functions and the host objects (multipart handle, cache map, cookie jar) are
  modelled as having no own enumerable property.
\<close>

fun spread :: "jsval \<Rightarrow> jsobj" where
  "spread (Obj kvs) = kvs"
| "spread (Arr xs) = indexed xs"
| "spread (Str s) = indexed (map (\<lambda>c. Str [c]) s)"
| "spread (Buffer bs) = indexed (map (\<lambda>b. Num (uint b)) bs)"
| "spread _ = []"

text \<open>\<open>{...options}\<close> for an argument that may have been omitted.\<close>

definition spread_arg :: "jsobj option \<Rightarrow> jsobj" where
  "spread_arg options = (case options of None \<Rightarrow> [] | Some opts \<Rightarrow> opts)"

section \<open>Capabilities and events\<close>

text \<open>
  The capabilities the class calls and does not define: the transport \<open>got(url, options)\<close>
  and its alias \<open>got.post\<close>, which resolve with a response object or reject; \<open>JSON.stringify\<close>
  and \<open>JSON.parse\<close>, which return or throw; and the conversion of a value that is neither a
  string nor a number to a string.
\<close>

record env =
  got :: "string \<Rightarrow> jsobj \<Rightarrow> js_error + jsobj"
  got_post :: "string \<Rightarrow> jsobj \<Rightarrow> js_error + jsobj"
  JSON_stringify :: "jsval \<Rightarrow> js_error + jsval"
  JSON_parse :: "jsval \<Rightarrow> js_error + jsval"
  host_toString :: "jsval \<Rightarrow> string"

text \<open>The regular expressions of the class are literal texts: one matches a string that contains it.\<close>

datatype regexp = RegExp (source: string)

fun contains :: "string \<Rightarrow> string \<Rightarrow> bool" where
  "contains p [] = (p = [])"
| "contains p (c # s) = (take (length p) (c # s) = p \<or> contains p s)"

definition regexp_test :: "regexp \<Rightarrow> string \<Rightarrow> bool" where
  "regexp_test r s = contains (source r) s"

text \<open>
  Every call of a capability, of a function supplied by the caller, of the test framework and
  of the instance under test is an event; an operation returns the events in the order it made
  them (its trace) together with how its promise settled.
\<close>

datatype event =
    CallBody
  | MultipartBuffer
  | MultipartGetHeaders bool
  | Stringify jsval
  | Got string jsobj
  | GotPost string jsobj
  | Parse jsval
  | StrictSame jsval jsval jsval jsval
  | Match jsval jsval jsval jsval
  | ReportError js_error jsval jsval
  | Rejects "js_error + jsval" "regexp option" jsval jsval
  | NewContext
  | Start
  | Stop
  | CheckStopped
  | BeforeEach
  | Teardown

type_synonym 'a io = "event list \<times> (js_error + 'a)"

text \<open>\<open>await p\<close> followed by the rest of an async function: a rejection ends the function.\<close>

definition await :: "'a io \<Rightarrow> ('a \<Rightarrow> 'b io) \<Rightarrow> 'b io" where
  "await p k =
     (case snd p of
        Inl e \<Rightarrow> (fst p, Inl e)
      | Inr x \<Rightarrow> (fst p @ fst (k x), snd (k x)))"

section \<open>The context\<close>

text \<open>
  The instance under test. \<open>start\<close>, \<open>stop\<close> and \<open>checkStopped\<close> are optional methods: one
  that is there resolves or rejects when called. \<open>instances\<close> is \<open>None\<close> when the property is
  not iterable; \<open>members\<close> is the instance read by name: \<open>integrationInstance[instanceID]\<close>
  is \<open>get_prop (members inst) instanceID\<close>.
\<close>

datatype hook = Absent | Resolves | RejectsWith js_error

record integration =
  baseURL :: string
  instances :: "string list option"
  members :: jsobj
  defaultInstance :: jsval
  start :: hook
  stop :: hook
  checkStopped :: hook

record TAPContextGot =
  integrationInstance :: integration
  httpError :: "(string \<times> regexp) list"
  genericGotOptions :: jsobj
  mixed_in :: jsobj
  ctx_defaultInstance :: jsval

definition default_httpError :: "(string \<times> regexp) list" where
  "default_httpError =
     [(''400'', RegExp ''Response code 400''),
      (''404'', RegExp ''Response code 404''),
      (''405'', RegExp ''Response code 405'')]"

definition default_genericGotOptions :: jsobj where
  "default_genericGotOptions =
     [(''cache'', CacheMap), (''timeout'', Num 10000), (''cookieJar'', CookieJar)]"

text \<open>
  What a constructor returns. \<open>Whole ctx\<close> is an object whose fields and methods are those of
  the class, described by the record. \<open>Altered props\<close> is an object on which the assignments
  \<open>this[instanceID] = ...\<close> replaced a field or a method of the class, or its prototype;
  \<open>props\<close> are the properties so assigned. The operations below are those of the class, so
  they are stated for a record only.
\<close>

datatype constructed = Whole TAPContextGot | Altered jsobj

text \<open>
  The names an assignment \<open>this[instanceID] = ...\<close> meets on a new object of \<^verbatim>\<open>part_000\<close>:
  the fields set before the loop and the methods of the prototype. The accessor \<open>baseURL\<close> has
  a getter only, so assigning to it throws a TypeError (class code is strict). Assigning to
  \<open>__proto__\<close> replaces the prototype when the value is an object or \<open>null\<close> and does nothing
  otherwise; once the prototype is replaced, \<open>baseURL\<close> is an ordinary name.
\<close>

definition class_members :: "string list" where
  "class_members =
     [''integrationInstance'', ''httpError'', ''genericGotOptions'', ''constructor'',
      ''runPath'', ''readdir'', ''readFile'', ''getCookieString'', ''api'', ''json'',
      ''_withBody'', ''post'', ''put'', ''delete'']"

fun sets_prototype :: "jsval \<Rightarrow> bool" where
  "sets_prototype Undefined = False"
| "sets_prototype (Bool b) = False"
| "sets_prototype (Num n) = False"
| "sets_prototype (Str s) = False"
| "sets_prototype _ = True"

definition not_iterable_error :: js_error where
  "not_iterable_error = JsError ''TypeError'' ''integrationInstance.instances is not iterable''"

definition getter_only_error :: js_error where
  "getter_only_error = JsError ''TypeError'' ''Cannot set property baseURL which has only a getter''"

text \<open>
  The loop \<open>for (const instanceID of integrationInstance.instances) this[instanceID] =
  integrationInstance[instanceID]\<close> (\<^verbatim>\<open>part_000\<close> lines 31-33), over the names left. \<open>replaced\<close>
  says that the prototype has been replaced, \<open>altered\<close> that a member of the class or the
  prototype has been, \<open>props\<close> are the properties assigned so far.
\<close>

fun mix_in :: "jsobj \<Rightarrow> bool \<Rightarrow> bool \<Rightarrow> jsobj \<Rightarrow> string list \<Rightarrow> js_error + bool \<times> jsobj" where
  "mix_in table replaced altered props [] = Inr (altered, props)"
| "mix_in table replaced altered props (instanceID # ids) =
     (if instanceID = ''__proto__'' then
        (if sets_prototype (get_prop table instanceID) then mix_in table True True props ids
         else mix_in table replaced altered props ids)
      else if instanceID = ''baseURL'' \<and> \<not> replaced then Inl getter_only_error
      else mix_in table replaced (altered \<or> instanceID \<in> set class_members)
             (assign props instanceID (get_prop table instanceID)) ids)"

text \<open>
  The constructor of \<^verbatim>\<open>part_000\<close> (lines 28-36). The field initialisers and
  \<open>this.integrationInstance = integrationInstance\<close> come first; the loop throws when
  \<open>instances\<close> is not iterable or when it assigns to \<open>baseURL\<close>; the last statement,
  \<open>this.defaultInstance = integrationInstance.defaultInstance\<close>, overrides a property of that
  name assigned in the loop.
\<close>

definition new_TAPContextGot :: "integration \<Rightarrow> js_error + constructed" where
  "new_TAPContextGot inst =
     (case instances inst of
        None \<Rightarrow> Inl not_iterable_error
      | Some ids \<Rightarrow>
          (case mix_in (members inst) False False [] ids of
             Inl e \<Rightarrow> Inl e
           | Inr (altered, props) \<Rightarrow>
               if altered then Inr (Altered props)
               else Inr (Whole
                 \<lparr>integrationInstance = inst,
                  httpError = default_httpError,
                  genericGotOptions = default_genericGotOptions,
                  mixed_in = delete_prop props ''defaultInstance'',
                  ctx_defaultInstance = defaultInstance inst\<rparr>)))"

text \<open>The constructor of \<^verbatim>\<open>index.js\<close> (lines 27-29) only stores the instance.\<close>

definition new_TAPContextGot_index :: "integration \<Rightarrow> js_error + constructed" where
  "new_TAPContextGot_index inst =
     Inr (Whole
       \<lparr>integrationInstance = inst,
        httpError = default_httpError,
        genericGotOptions = default_genericGotOptions,
        mixed_in = [],
        ctx_defaultInstance = Undefined\<rparr>)"

section \<open>The request operations\<close>

definition url_of :: "TAPContextGot \<Rightarrow> string \<Rightarrow> string" where
  "url_of ctx path = baseURL (integrationInstance ctx) @ path"

text \<open>\<open>api(api, options)\<close>: \<open>got(url, {...this.genericGotOptions, ...options})\<close>, in both files.\<close>

definition api :: "env \<Rightarrow> TAPContextGot \<Rightarrow> string \<Rightarrow> jsobj option \<Rightarrow> jsobj io" where
  "api env ctx path options =
     (let opts = genericGotOptions ctx @ spread_arg options
      in ([Got (url_of ctx path) opts], got env (url_of ctx path) opts))"

text \<open>\<open>const {body} = response; return JSON.parse(body);\<close>\<close>

definition parse_body :: "env \<Rightarrow> jsobj \<Rightarrow> jsval io" where
  "parse_body env response =
     ([Parse (get_prop response ''body'')], JSON_parse env (get_prop response ''body''))"

definition json :: "env \<Rightarrow> TAPContextGot \<Rightarrow> string \<Rightarrow> jsobj option \<Rightarrow> jsval io" where
  "json env ctx path options = await (api env ctx path options) (parse_body env)"

text \<open>
  \<open>if (typeof options.body === 'function') options.body = options.body();\<close>
  (\<^verbatim>\<open>part_000\<close> lines 81-83, \<^verbatim>\<open>index.js\<close> lines 61-63).
\<close>

definition resolve_body :: "jsobj \<Rightarrow> jsobj io" where
  "resolve_body options =
     (case get_prop options ''body'' of
        Func r \<Rightarrow>
          (case r of
             Inl e \<Rightarrow> ([CallBody], Inl e)
           | Inr v \<Rightarrow> ([CallBody], Inr (assign options ''body'' v)))
      | _ \<Rightarrow> ([], Inr options))"

text \<open>
  The classification of the body (\<^verbatim>\<open>part_000\<close> lines 85-98, \<^verbatim>\<open>index.js\<close> lines 65-78):
  a multipart handle is replaced by its buffer and gives its headers; any other body is
  stringified unless \<open>options.json === false\<close>.
\<close>

definition header_obj :: "(string \<times> string) list \<Rightarrow> jsobj" where
  "header_obj hs = map (\<lambda>kv. (fst kv, Str (snd kv))) hs"

definition encode_body :: "env \<Rightarrow> jsobj \<Rightarrow> jsobj io" where
  "encode_body env options =
     (case get_prop options ''body'' of
        Multipart data \<Rightarrow>
          (case mp_buffer data of
             Inl e \<Rightarrow> ([MultipartBuffer], Inl e)
           | Inr bytes \<Rightarrow>
               ([MultipartBuffer, MultipartGetHeaders False],
                Inr (assign (assign options ''body'' (Buffer bytes)) ''headers''
                  (Obj (header_obj (mp_getHeaders data False)
                        @ spread (get_prop options ''headers''))))))
      | body \<Rightarrow>
          if get_prop options ''json'' \<noteq> Bool False then
            (case JSON_stringify env body of
               Inl e \<Rightarrow> ([Stringify body], Inl e)
             | Inr s \<Rightarrow>
                 ([Stringify body],
                  Inr (assign (assign options ''body'' s) ''headers''
                    (Obj ([(''Content-Type'', Str ''application/json'')]
                          @ spread (get_prop options ''headers''))))))
          else ([], Inr options))"

text \<open>
  \<open>const {cache} = options\<close> throws when \<open>options\<close> is \<open>undefined\<close>. Otherwise the options are
  merged, \<open>{headers: {}, ...this.genericGotOptions, ...options, method}\<close> (\<open>forced\<close> is the
  \<open>method\<close> property, which \<^verbatim>\<open>index.js\<close> does not set), and \<open>if (!cache) delete options.cache\<close>
  (\<^verbatim>\<open>part_000\<close> lines 69-79, \<^verbatim>\<open>index.js\<close> lines 50-59).
\<close>

definition destructure_error :: js_error where
  "destructure_error = JsError ''TypeError'' ''Cannot destructure property cache of undefined''"

definition merge_options :: "TAPContextGot \<Rightarrow> jsobj \<Rightarrow> jsobj \<Rightarrow> jsobj" where
  "merge_options ctx opts forced =
     (let cache = get_prop opts ''cache'';
          options = [(''headers'', Obj [])] @ genericGotOptions ctx @ opts @ forced
      in if \<not> truthy cache then delete_prop options ''cache'' else options)"

text \<open>\<open>_withBody(method, api, options)\<close> (\<^verbatim>\<open>part_000\<close> lines 68-103).\<close>

definition withBody :: "env \<Rightarrow> TAPContextGot \<Rightarrow> string \<Rightarrow> string \<Rightarrow> jsobj option \<Rightarrow> jsval io" where
  "withBody env ctx method path options =
     (case options of
        None \<Rightarrow> ([], Inl destructure_error)
      | Some opts \<Rightarrow>
          await (resolve_body (merge_options ctx opts [(''method'', Str method)])) (\<lambda>resolved.
          await (encode_body env resolved) (\<lambda>final.
          await ([Got (url_of ctx path) final], got env (url_of ctx path) final)
            (parse_body env))))"

definition post :: "env \<Rightarrow> TAPContextGot \<Rightarrow> string \<Rightarrow> jsobj option \<Rightarrow> jsval io" where
  "post env ctx path options = withBody env ctx ''POST'' path options"

definition put :: "env \<Rightarrow> TAPContextGot \<Rightarrow> string \<Rightarrow> jsobj option \<Rightarrow> jsval io" where
  "put env ctx path options = withBody env ctx ''PUT'' path options"

text \<open>\<open>delete(api, options)\<close>: \<open>this.api(api, {...options, method: 'DELETE'})\<close>, then the parse.\<close>

definition delete :: "env \<Rightarrow> TAPContextGot \<Rightarrow> string \<Rightarrow> jsobj option \<Rightarrow> jsval io" where
  "delete env ctx path options =
     await (api env ctx path (Some (spread_arg options @ [(''method'', Str ''DELETE'')])))
       (parse_body env)"

text \<open>
  \<open>post\<close> of \<^verbatim>\<open>index.js\<close> (lines 49-83): the same steps, without the \<open>method\<close> property, and
  the request goes through \<open>got.post\<close>.
\<close>

definition post_index :: "env \<Rightarrow> TAPContextGot \<Rightarrow> string \<Rightarrow> jsobj option \<Rightarrow> jsval io" where
  "post_index env ctx path options =
     (case options of
        None \<Rightarrow> ([], Inl destructure_error)
      | Some opts \<Rightarrow>
          await (resolve_body (merge_options ctx opts [])) (\<lambda>resolved.
          await (encode_body env resolved) (\<lambda>final.
          await ([GotPost (url_of ctx path) final], got_post env (url_of ctx path) final)
            (parse_body env))))"

section \<open>The assertions\<close>

text \<open>\<open>message || d\<close>, and a value in a template literal or as a property key.\<close>

definition or_default :: "jsval \<Rightarrow> string \<Rightarrow> jsval" where
  "or_default message d = (if truthy message then message else Str d)"

definition to_string :: "env \<Rightarrow> jsval \<Rightarrow> string" where
  "to_string env v =
     (case v of Str s \<Rightarrow> s | Num n \<Rightarrow> show_int n | _ \<Rightarrow> host_toString env v)"

text \<open>
  The bodies of the success assertions: \<open>try { this.strictSame(await operation, expected,
  message, extra) } catch (error) { this.error(error, message, extra) }\<close>, and the same with
  \<open>this.match\<close>. The bodies of the failure assertions: \<open>await this.rejects(operation,
  this.context.httpError[error], message, extra)\<close>.
\<close>

definition report_same :: "jsval io \<Rightarrow> jsval \<Rightarrow> jsval \<Rightarrow> jsval \<Rightarrow> event list" where
  "report_same r expected message extra =
     (case snd r of
        Inr found \<Rightarrow> fst r @ [StrictSame found expected message extra]
      | Inl error \<Rightarrow> fst r @ [ReportError error message extra])"

definition report_match :: "jsval io \<Rightarrow> jsval \<Rightarrow> jsval \<Rightarrow> jsval \<Rightarrow> event list" where
  "report_match r expected message extra =
     (case snd r of
        Inr found \<Rightarrow> fst r @ [Match found expected message extra]
      | Inl error \<Rightarrow> fst r @ [ReportError error message extra])"

definition report_rejects ::
  "env \<Rightarrow> TAPContextGot \<Rightarrow> jsval io \<Rightarrow> jsval \<Rightarrow> jsval \<Rightarrow> jsval \<Rightarrow> event list" where
  "report_rejects env ctx r error message extra =
     fst r @ [Rejects (snd r) (own (httpError ctx) (to_string env error)) message extra]"

text \<open>
  The assertions of \<^verbatim>\<open>part_000\<close> (lines 125-209), in the order they are registered. Each is
  the trace of one call: the events of its operation, then its report. In \<open>apiRejects\<close>,
  \<open>options || {}\<close> is the options given or the empty object, and \<open>options.method ?? 'GET'\<close>
  is \<open>GET\<close> when \<open>method\<close> is \<open>undefined\<close> or \<open>null\<close>.
\<close>

definition apiRejects ::
  "env \<Rightarrow> TAPContextGot \<Rightarrow> string \<Rightarrow> jsobj option \<Rightarrow> jsval \<Rightarrow> jsval \<Rightarrow> jsval \<Rightarrow> event list" where
  "apiRejects env ctx path options error message extra =
     (let options = spread_arg options;
          method = (case get_prop options ''method'' of
                      Undefined \<Rightarrow> ''GET'' | Null \<Rightarrow> ''GET'' | m \<Rightarrow> to_string env m)
      in report_rejects env ctx (json env ctx path (Some options)) error
           (or_default message (method @ '' '' @ path)) extra)"

definition checkGet ::
  "env \<Rightarrow> TAPContextGot \<Rightarrow> string \<Rightarrow> jsval \<Rightarrow> jsval \<Rightarrow> jsval \<Rightarrow> event list" where
  "checkGet env ctx path expected message extra =
     (let message = or_default message (''GET '' @ path)
      in report_same (json env ctx path None) expected message extra)"

definition matchGet ::
  "env \<Rightarrow> TAPContextGot \<Rightarrow> string \<Rightarrow> jsval \<Rightarrow> jsval \<Rightarrow> jsval \<Rightarrow> event list" where
  "matchGet env ctx path expected message extra =
     (let message = or_default message (''GET '' @ path)
      in report_match (json env ctx path None) expected message extra)"

definition checkGetError ::
  "env \<Rightarrow> TAPContextGot \<Rightarrow> string \<Rightarrow> jsval \<Rightarrow> jsval \<Rightarrow> jsval \<Rightarrow> event list" where
  "checkGetError env ctx path error message extra =
     report_rejects env ctx (json env ctx path None) error
       (or_default message (''GET '' @ path)) extra"

definition checkPost ::
  "env \<Rightarrow> TAPContextGot \<Rightarrow> string \<Rightarrow> jsval \<Rightarrow> jsval \<Rightarrow> jsval \<Rightarrow> jsval \<Rightarrow> event list" where
  "checkPost env ctx path body expected message extra =
     (let message = or_default message (''POST '' @ path)
      in report_same (post env ctx path (Some [(''body'', body)])) expected message extra)"

definition checkPostError ::
  "env \<Rightarrow> TAPContextGot \<Rightarrow> string \<Rightarrow> jsval \<Rightarrow> jsval \<Rightarrow> jsval \<Rightarrow> jsval \<Rightarrow> event list" where
  "checkPostError env ctx path body error message extra =
     report_rejects env ctx (post env ctx path (Some [(''body'', body)])) error
       (or_default message (''POST '' @ path)) extra"

definition checkPut ::
  "env \<Rightarrow> TAPContextGot \<Rightarrow> string \<Rightarrow> jsval \<Rightarrow> jsval \<Rightarrow> jsval \<Rightarrow> jsval \<Rightarrow> event list" where
  "checkPut env ctx path body expected message extra =
     (let message = or_default message (''PUT '' @ path)
      in report_same (put env ctx path (Some [(''body'', body)])) expected message extra)"

definition checkPutError ::
  "env \<Rightarrow> TAPContextGot \<Rightarrow> string \<Rightarrow> jsval \<Rightarrow> jsval \<Rightarrow> jsval \<Rightarrow> jsval \<Rightarrow> event list" where
  "checkPutError env ctx path body error message extra =
     report_rejects env ctx (put env ctx path (Some [(''body'', body)])) error
       (or_default message (''PUT '' @ path)) extra"

definition checkDelete ::
  "env \<Rightarrow> TAPContextGot \<Rightarrow> string \<Rightarrow> jsval \<Rightarrow> jsval \<Rightarrow> jsval \<Rightarrow> event list" where
  "checkDelete env ctx path expected message extra =
     (let message = or_default message (''DELETE '' @ path)
      in report_same (delete env ctx path None) expected message extra)"

definition checkDeleteError ::
  "env \<Rightarrow> TAPContextGot \<Rightarrow> string \<Rightarrow> jsval \<Rightarrow> jsval \<Rightarrow> jsval \<Rightarrow> event list" where
  "checkDeleteError env ctx path error message extra =
     report_rejects env ctx (delete env ctx path None) error
       (or_default message (''DELETE '' @ path)) extra"

text \<open>
  The assertions of \<^verbatim>\<open>index.js\<close> (lines 88-125). The success assertions pass
  \<open>message || api\<close>, the failure assertions \<open>message || `GET ${api}`\<close> and
  \<open>message || `POST ${api}`\<close>.
\<close>

definition checkGet_index ::
  "env \<Rightarrow> TAPContextGot \<Rightarrow> string \<Rightarrow> jsval \<Rightarrow> jsval \<Rightarrow> jsval \<Rightarrow> event list" where
  "checkGet_index env ctx path expected message extra =
     report_same (json env ctx path None) expected (or_default message path) extra"

definition matchGet_index ::
  "env \<Rightarrow> TAPContextGot \<Rightarrow> string \<Rightarrow> jsval \<Rightarrow> jsval \<Rightarrow> jsval \<Rightarrow> event list" where
  "matchGet_index env ctx path expected message extra =
     report_match (json env ctx path None) expected (or_default message path) extra"

definition checkGetError_index ::
  "env \<Rightarrow> TAPContextGot \<Rightarrow> string \<Rightarrow> jsval \<Rightarrow> jsval \<Rightarrow> jsval \<Rightarrow> event list" where
  "checkGetError_index env ctx path error message extra =
     report_rejects env ctx (json env ctx path None) error
       (or_default message (''GET '' @ path)) extra"

definition checkPost_index ::
  "env \<Rightarrow> TAPContextGot \<Rightarrow> string \<Rightarrow> jsval \<Rightarrow> jsval \<Rightarrow> jsval \<Rightarrow> jsval \<Rightarrow> event list" where
  "checkPost_index env ctx path body expected message extra =
     report_same (post_index env ctx path (Some [(''body'', body)])) expected
       (or_default message path) extra"

definition checkPostError_index ::
  "env \<Rightarrow> TAPContextGot \<Rightarrow> string \<Rightarrow> jsval \<Rightarrow> jsval \<Rightarrow> jsval \<Rightarrow> jsval \<Rightarrow> event list" where
  "checkPostError_index env ctx path body error message extra =
     report_rejects env ctx (post_index env ctx path (Some [(''body'', body)])) error
       (or_default message (''POST '' @ path)) extra"

text \<open>
  Modelled from the spec: the test framework's \<open>rejects\<close> primitive, which is not part of
  the repository. Given how the promise settled and the expected pattern, it passes when the
  promise rejected with an error whose message matches the pattern, and fails when the promise
  resolved or the message does not match.
\<close>

definition rejects_passes :: "js_error + jsval \<Rightarrow> regexp \<Rightarrow> bool" where
  "rejects_passes outcome expected =
     (case outcome of Inl e \<Rightarrow> regexp_test expected (err_message e) | Inr v \<Rightarrow> False)"

section \<open>Setup and teardown\<close>

text \<open>\<open>await integrationInstance.hook?.()\<close>: nothing happens when the hook is absent.\<close>

definition call_hook :: "hook \<Rightarrow> event \<Rightarrow> unit io" where
  "call_hook h ev =
     (case h of
        Absent \<Rightarrow> ([], Inr ())
      | Resolves \<Rightarrow> ([ev], Inr ())
      | RejectsWith e \<Rightarrow> ([ev], Inl e))"

text \<open>The function given to \<open>tap.teardown\<close> (\<^verbatim>\<open>part_000\<close> lines 220-223, \<^verbatim>\<open>index.js\<close> lines 136-139).\<close>

definition teardown :: "integration \<Rightarrow> unit io" where
  "teardown inst =
     await (call_hook (stop inst) Stop) (\<lambda>u. call_hook (checkStopped inst) CheckStopped)"

text \<open>
  A test case, with its \<open>context\<close> property, and the function given to \<open>tap.beforeEach\<close>:
  \<open>(done, t) => { t.context = context; done(); }\<close>.
\<close>

record test_case =
  title :: string
  attached :: "constructed option"

definition beforeEach :: "constructed \<Rightarrow> test_case \<Rightarrow> test_case io" where
  "beforeEach ctx t = ([], Inr (t\<lparr>attached := Some ctx\<rparr>))"

text \<open>
  The body of the test \<open>setup integration testing\<close> (\<^verbatim>\<open>part_000\<close> lines 211-224, \<^verbatim>\<open>index.js\<close>
  lines 127-140), \<open>new\<close> being the constructor of the file: \<open>const context = new
  this(integrationInstance)\<close> (event \<open>NewContext\<close>), \<open>await integrationInstance.start?.()\<close>,
  then the two registrations (events \<open>BeforeEach\<close> and \<open>Teardown\<close>); its result is the pair of
  functions it registered.
\<close>

record hooks =
  on_beforeEach :: "test_case \<Rightarrow> test_case io"
  on_teardown :: "unit io"

definition setup_body ::
  "(integration \<Rightarrow> js_error + constructed) \<Rightarrow> integration \<Rightarrow> hooks io" where
  "setup_body new inst =
     await ([NewContext], new inst) (\<lambda>ctx.
     await (call_hook (start inst) Start) (\<lambda>u.
       ([BeforeEach, Teardown],
        Inr \<lparr>on_beforeEach = beforeEach ctx, on_teardown = teardown inst\<rparr>)))"

definition setup_test :: "integration \<Rightarrow> hooks io" where
  "setup_test inst = setup_body new_TAPContextGot inst"

definition setup_test_index :: "integration \<Rightarrow> hooks io" where
  "setup_test_index inst = setup_body new_TAPContextGot_index inst"

section \<open>Reading a trace\<close>

text \<open>The requests given to the transport, and the (message, extra) of the reports to the framework.\<close>

fun request_of :: "event \<Rightarrow> (string \<times> jsobj) option" where
  "request_of (Got url opts) = Some (url, opts)"
| "request_of (GotPost url opts) = Some (url, opts)"
| "request_of _ = None"

definition requests :: "event list \<Rightarrow> (string \<times> jsobj) list" where
  "requests t = List.map_filter request_of t"

fun report_of :: "event \<Rightarrow> (jsval \<times> jsval) option" where
  "report_of (StrictSame found wanted message extra) = Some (message, extra)"
| "report_of (Match found wanted message extra) = Some (message, extra)"
| "report_of (ReportError error message extra) = Some (message, extra)"
| "report_of (Rejects outcome expected message extra) = Some (message, extra)"
| "report_of _ = None"

definition reports :: "event list \<Rightarrow> (jsval \<times> jsval) list" where
  "reports t = List.map_filter report_of t"

fun is_stringify :: "event \<Rightarrow> bool" where
  "is_stringify (Stringify v) = True"
| "is_stringify _ = False"

text \<open>A sample environment and context, for closed instances of the theorems.\<close>

definition sample_env :: env where
  "sample_env =
     \<lparr>got = (\<lambda>url opts.
        if url = ''http://localhost/missing''
        then Inl (JsError ''HTTPError'' ''Response code 404 (Not Found)'')
        else if url = ''http://localhost/text'' then Inr [(''body'', Str ''plain'')]
        else Inr [(''statusCode'', Num 200), (''body'', Str ''{}'')]),
      got_post = (\<lambda>url opts.
        if url = ''http://localhost/missing''
        then Inl (JsError ''HTTPError'' ''Response code 404 (Not Found)'')
        else Inr [(''statusCode'', Num 200), (''body'', Str ''{}'')]),
      JSON_stringify = (\<lambda>v. case v of Undefined \<Rightarrow> Inr Undefined | Func r \<Rightarrow> Inr Undefined
                              | Num n \<Rightarrow> Inr (Str (show_int n)) | w \<Rightarrow> Inr (Str ''{}'')),
      JSON_parse = (\<lambda>v. if v = Str ''{}'' then Inr (Obj [])
                         else Inl (JsError ''SyntaxError'' ''Unexpected token'')),
      host_toString = (\<lambda>v. ''[object Object]'')\<rparr>"

definition sample_instance :: integration where
  "sample_instance =
     \<lparr>baseURL = ''http://localhost'', instances = Some [], members = [],
      defaultInstance = Undefined, start = Resolves, stop = Resolves, checkStopped = Absent\<rparr>"

definition sample_ctx :: TAPContextGot where
  "sample_ctx =
     \<lparr>integrationInstance = sample_instance, httpError = default_httpError,
      genericGotOptions = default_genericGotOptions, mixed_in = [],
      ctx_defaultInstance = Undefined\<rparr>"

definition sample_multipart :: multipart where
  "sample_multipart =
     \<lparr>mp_buffer = Inr [45, 45, 120],
      mp_getHeaders = (\<lambda>chunked.
        (if chunked then [(''transfer-encoding'', ''chunked'')] else [])
        @ [(''content-type'', ''multipart/form-data; boundary=x''), (''x-kind'', ''form'')])\<rparr>"

section \<open>Objects, traces and the two steps on the body\<close>

lemma own_Nil [simp]: "own [] k = None"
  by (simp add: own_def)

lemma own_append: "own (a @ b) k = (case own b k of None \<Rightarrow> own a k | Some v \<Rightarrow> Some v)"
  by (simp add: own_def map_add_def split: option.splits)

lemma own_Cons:
  "own (kv # obj) k =
     (case own obj k of None \<Rightarrow> (if fst kv = k then Some (snd kv) else None) | Some v \<Rightarrow> Some v)"
  using own_append[of "[kv]" obj k] by (cases kv) (auto simp: own_def split: option.splits)

lemma own_single [simp]: "own [(k', v)] k = (if k = k' then Some v else None)"
  by (simp add: own_def)

lemma own_None_iff: "own obj k = None \<longleftrightarrow> \<not> has_own obj k"
  by (simp add: own_def has_own_def map_of_eq_None_iff)

lemma has_own_append [simp]: "has_own (a @ b) k \<longleftrightarrow> has_own a k \<or> has_own b k"
  by (auto simp: has_own_def)

lemma has_own_Nil [simp]: "\<not> has_own [] k"
  by (simp add: has_own_def)

lemma has_own_Cons [simp]: "has_own (kv # obj) k \<longleftrightarrow> fst kv = k \<or> has_own obj k"
  by (auto simp: has_own_def)

lemma has_own_assign [simp]: "has_own (assign obj k v) k' \<longleftrightarrow> k' = k \<or> has_own obj k'"
  by (auto simp: assign_def)

lemma has_own_delete_prop [simp]: "has_own (delete_prop obj k) k' \<longleftrightarrow> k' \<noteq> k \<and> has_own obj k'"
  by (auto simp: has_own_def delete_prop_def)

lemma own_assign [simp]: "own (assign obj k v) k' = (if k' = k then Some v else own obj k')"
  by (simp add: assign_def own_append)

lemma own_delete_prop [simp]: "own (delete_prop obj k) k' = (if k' = k then None else own obj k')"
proof (induction obj rule: rev_induct)
  case Nil
  then show ?case by (simp add: delete_prop_def)
next
  case (snoc kv obj)
  have "delete_prop (obj @ [kv]) k = delete_prop obj k @ (if fst kv = k then [] else [kv])"
    by (simp add: delete_prop_def)
  with snoc show ?case
    by (cases kv) (auto simp: own_append split: option.splits)
qed

lemma get_prop_assign [simp]: "get_prop (assign obj k v) k' = (if k' = k then v else get_prop obj k')"
  by (simp add: get_prop_def)

lemma get_prop_append: "get_prop (a @ b) k = (if has_own b k then get_prop b k else get_prop a k)"
proof (cases "own b k")
  case None
  then have "\<not> has_own b k" using own_None_iff[of b k] by simp
  with None show ?thesis by (simp add: get_prop_def own_append)
next
  case (Some v)
  then have "has_own b k" using own_None_iff[of b k] by simp
  with Some show ?thesis by (simp add: get_prop_def own_append)
qed


lemma get_prop_delete_prop [simp]:
  "get_prop (delete_prop obj k) k' = (if k' = k then Undefined else get_prop obj k')"
  by (simp add: get_prop_def)

lemma has_own_get_prop: "\<not> has_own obj k \<Longrightarrow> get_prop obj k = Undefined"
  by (simp add: get_prop_def own_None_iff[symmetric])

subsection \<open>Traces of the request operations\<close>

lemma fst_await: "fst (await p k) = (case snd p of Inl e \<Rightarrow> fst p | Inr x \<Rightarrow> fst p @ fst (k x))"
  by (simp add: await_def split: sum.splits)

lemma snd_await: "snd (await p k) = (case snd p of Inl e \<Rightarrow> Inl e | Inr x \<Rightarrow> snd (k x))"
  by (simp add: await_def split: sum.splits)

lemma requests_append [simp]: "requests (a @ b) = requests a @ requests b"
  by (simp add: requests_def map_filter_def)

lemma requests_Nil [simp]: "requests [] = []"
  by (simp add: requests_def map_filter_def)

lemma requests_Cons [simp]:
  "requests (ev # t) = (case request_of ev of None \<Rightarrow> requests t | Some r \<Rightarrow> r # requests t)"
  by (simp add: requests_def map_filter_def split: option.splits)

text \<open>The two steps on the body, by the kind of body.\<close>

lemma resolve_body_Func:
  "get_prop m ''body'' = Func r \<Longrightarrow>
   resolve_body m =
     (case r of Inl e \<Rightarrow> ([CallBody], Inl e) | Inr v \<Rightarrow> ([CallBody], Inr (assign m ''body'' v)))"
  by (simp add: resolve_body_def)

lemma resolve_body_other:
  "\<forall>r. get_prop m ''body'' \<noteq> Func r \<Longrightarrow> resolve_body m = ([], Inr m)"
  by (cases "get_prop m ''body''") (simp_all add: resolve_body_def)

lemma encode_body_Multipart:
  "get_prop r ''body'' = Multipart data \<Longrightarrow>
   encode_body env r =
     (case mp_buffer data of
        Inl e \<Rightarrow> ([MultipartBuffer], Inl e)
      | Inr bytes \<Rightarrow>
          ([MultipartBuffer, MultipartGetHeaders False],
           Inr (assign (assign r ''body'' (Buffer bytes)) ''headers''
             (Obj (header_obj (mp_getHeaders data False) @ spread (get_prop r ''headers''))))))"
  by (simp add: encode_body_def)

lemma encode_body_other:
  "\<forall>data. get_prop r ''body'' \<noteq> Multipart data \<Longrightarrow>
   encode_body env r =
     (if get_prop r ''json'' \<noteq> Bool False then
        (case JSON_stringify env (get_prop r ''body'') of
           Inl e \<Rightarrow> ([Stringify (get_prop r ''body'')], Inl e)
         | Inr s \<Rightarrow>
             ([Stringify (get_prop r ''body'')],
              Inr (assign (assign r ''body'' s) ''headers''
                (Obj ([(''Content-Type'', Str ''application/json'')]
                      @ spread (get_prop r ''headers''))))))
      else ([], Inr r))"
  by (cases "get_prop r ''body''") (simp_all add: encode_body_def split: sum.splits)

lemma resolve_body_trace: "fst (resolve_body m) = [] \<or> fst (resolve_body m) = [CallBody]"
proof (cases "\<exists>r. get_prop m ''body'' = Func r")
  case True
  then show ?thesis by (auto simp: resolve_body_Func split: sum.splits)
next
  case False
  then show ?thesis by (simp add: resolve_body_other)
qed

lemma resolve_body_requests [simp]: "requests (fst (resolve_body m)) = []"
  using resolve_body_trace[of m] by auto

lemma resolve_body_own:
  "snd (resolve_body m) = Inr r \<Longrightarrow> k \<noteq> ''body'' \<Longrightarrow> own r k = own m k"
proof (cases "\<exists>r. get_prop m ''body'' = Func r")
  case True
  then show "snd (resolve_body m) = Inr r \<Longrightarrow> k \<noteq> ''body'' \<Longrightarrow> own r k = own m k"
    by (auto simp: resolve_body_Func split: sum.splits)
next
  case False
  then show "snd (resolve_body m) = Inr r \<Longrightarrow> k \<noteq> ''body'' \<Longrightarrow> own r k = own m k"
    by (simp add: resolve_body_other)
qed

lemma resolve_body_has_own:
  "snd (resolve_body m) = Inr r \<Longrightarrow> k \<noteq> ''body'' \<Longrightarrow> has_own r k = has_own m k"
  using resolve_body_own[of m r k] own_None_iff[of r k] own_None_iff[of m k] by auto

lemma encode_body_trace:
  "fst (encode_body env r) \<in>
     {[], [MultipartBuffer], [MultipartBuffer, MultipartGetHeaders False],
      [Stringify (get_prop r ''body'')]}"
proof (cases "\<exists>data. get_prop r ''body'' = Multipart data")
  case True
  then show ?thesis by (auto simp: encode_body_Multipart split: sum.splits)
next
  case False
  then show ?thesis by (simp add: encode_body_other split: sum.splits)
qed

lemma encode_body_requests [simp]: "requests (fst (encode_body env r)) = []"
  using encode_body_trace[of env r] by auto

lemma encode_body_own:
  assumes "snd (encode_body env r) = Inr f" and "k \<noteq> ''body''" and "k \<noteq> ''headers''"
  shows "own f k = own r k"
proof (cases "\<exists>data. get_prop r ''body'' = Multipart data")
  case True
  with assms show ?thesis by (auto simp: encode_body_Multipart split: sum.splits)
next
  case False
  with assms show ?thesis by (auto simp: encode_body_other split: sum.splits if_splits)
qed

lemma encode_body_has_own:
  "snd (encode_body env r) = Inr f \<Longrightarrow> k \<noteq> ''body'' \<Longrightarrow> k \<noteq> ''headers'' \<Longrightarrow> has_own f k = has_own r k"
  using encode_body_own[of env r f k] own_None_iff[of f k] own_None_iff[of r k] by auto

lemma parse_body_requests [simp]: "requests (fst (parse_body env resp)) = []"
  by (simp add: parse_body_def)

text \<open>The requests of a call: none when resolving or encoding the body throws, else one.\<close>

lemma withBody_requests:
  "requests (fst (withBody env ctx method path (Some opts))) =
     (case snd (resolve_body (merge_options ctx opts [(''method'', Str method)])) of
        Inl e \<Rightarrow> []
      | Inr r \<Rightarrow> (case snd (encode_body env r) of
                    Inl e \<Rightarrow> []
                  | Inr f \<Rightarrow> [(url_of ctx path, f)]))"
  by (simp add: withBody_def fst_await snd_await split: sum.splits)

lemma post_index_requests:
  "requests (fst (post_index env ctx path (Some opts))) =
     (case snd (resolve_body (merge_options ctx opts [])) of
        Inl e \<Rightarrow> []
      | Inr r \<Rightarrow> (case snd (encode_body env r) of
                    Inl e \<Rightarrow> []
                  | Inr f \<Rightarrow> [(url_of ctx path, f)]))"
  by (simp add: post_index_def fst_await snd_await split: sum.splits)

lemma withBody_no_request_rejects:
  "requests (fst (withBody env ctx method path options)) = [] \<Longrightarrow>
   \<exists>e. snd (withBody env ctx method path options) = Inl e"
  by (cases options) (auto simp: withBody_def fst_await snd_await split: sum.splits)

lemma post_index_no_request_rejects:
  "requests (fst (post_index env ctx path options)) = [] \<Longrightarrow>
   \<exists>e. snd (post_index env ctx path options) = Inl e"
  by (cases options) (auto simp: post_index_def fst_await snd_await split: sum.splits)

lemma merge_options_cache_falsy:
  "\<not> truthy (get_prop opts ''cache'') \<Longrightarrow> \<not> has_own (merge_options ctx opts forced) ''cache''"
  by (simp add: merge_options_def)

lemma merge_options_cache_truthy:
  "truthy (get_prop opts ''cache'') \<Longrightarrow>
   own (merge_options ctx opts [(''method'', Str method)]) ''cache'' = own opts ''cache'' \<and>
   own (merge_options ctx opts []) ''cache'' = own opts ''cache''"
  by (cases "own opts ''cache''") (auto simp: merge_options_def own_append own_Cons get_prop_def)

lemma withBody_result:
  "snd (withBody env ctx method path (Some opts)) =
     (case snd (resolve_body (merge_options ctx opts [(''method'', Str method)])) of
        Inl e \<Rightarrow> Inl e
      | Inr r \<Rightarrow> (case snd (encode_body env r) of
                    Inl e \<Rightarrow> Inl e
                  | Inr f \<Rightarrow> (case got env (url_of ctx path) f of
                               Inl e \<Rightarrow> Inl e
                             | Inr response \<Rightarrow> JSON_parse env (get_prop response ''body''))))"
  by (simp add: withBody_def snd_await parse_body_def split: sum.splits)

lemma post_index_result:
  "snd (post_index env ctx path (Some opts)) =
     (case snd (resolve_body (merge_options ctx opts [])) of
        Inl e \<Rightarrow> Inl e
      | Inr r \<Rightarrow> (case snd (encode_body env r) of
                    Inl e \<Rightarrow> Inl e
                  | Inr f \<Rightarrow> (case got_post env (url_of ctx path) f of
                               Inl e \<Rightarrow> Inl e
                             | Inr response \<Rightarrow> JSON_parse env (get_prop response ''body''))))"
  by (simp add: post_index_def snd_await parse_body_def split: sum.splits)

lemma withBody_shape:
  "(\<exists>e. snd (withBody env ctx method path options) = Inl e
        \<and> requests (fst (withBody env ctx method path options)) = [])
   \<or> (\<exists>opts r f. options = Some opts
        \<and> snd (resolve_body (merge_options ctx opts [(''method'', Str method)])) = Inr r
        \<and> snd (encode_body env r) = Inr f
        \<and> requests (fst (withBody env ctx method path options)) = [(url_of ctx path, f)])"
proof (cases options)
  case None
  then show ?thesis by (simp add: withBody_def)
next
  case (Some opts)
  then show ?thesis
    by (auto simp: withBody_requests withBody_result split: sum.splits)
qed

lemma post_index_shape:
  "(\<exists>e. snd (post_index env ctx path options) = Inl e
        \<and> requests (fst (post_index env ctx path options)) = [])
   \<or> (\<exists>opts r f. options = Some opts
        \<and> snd (resolve_body (merge_options ctx opts [])) = Inr r
        \<and> snd (encode_body env r) = Inr f
        \<and> requests (fst (post_index env ctx path options)) = [(url_of ctx path, f)])"
proof (cases options)
  case None
  then show ?thesis by (simp add: post_index_def)
next
  case (Some opts)
  then show ?thesis
    by (auto simp: post_index_requests post_index_result split: sum.splits)
qed

lemma final_has_own:
  assumes "snd (resolve_body m) = Inr r" and "snd (encode_body env r) = Inr f"
    and "k \<noteq> ''body''" and "k \<noteq> ''headers''"
  shows "own f k = own m k" and "has_own f k = has_own m k"
  using assms resolve_body_own[of m r k] encode_body_own[of env r f k]
    resolve_body_has_own[of m r k] encode_body_has_own[of env r f k] by auto

lemma withBody_falsy_cache:
  assumes "\<not> truthy (get_prop (spread_arg options) ''cache'')"
  shows "(\<exists>e. snd (withBody env ctx method path options) = Inl e
            \<and> requests (fst (withBody env ctx method path options)) = [])
       \<or> (\<exists>final. requests (fst (withBody env ctx method path options)) = [(url_of ctx path, final)]
            \<and> \<not> has_own final ''cache'')"
  using withBody_shape[of env ctx "method" path options] assms
  by (auto simp: spread_arg_def final_has_own(2) merge_options_cache_falsy)

lemma post_index_falsy_cache:
  assumes "\<not> truthy (get_prop (spread_arg options) ''cache'')"
  shows "(\<exists>e. snd (post_index env ctx path options) = Inl e
            \<and> requests (fst (post_index env ctx path options)) = [])
       \<or> (\<exists>final. requests (fst (post_index env ctx path options)) = [(url_of ctx path, final)]
            \<and> \<not> has_own final ''cache'')"
  using post_index_shape[of env ctx path options] assms
  by (auto simp: spread_arg_def final_has_own(2) merge_options_cache_falsy)

lemma withBody_trace:
  "fst (withBody env ctx method path (Some opts)) =
     fst (resolve_body (merge_options ctx opts [(''method'', Str method)])) @
     (case snd (resolve_body (merge_options ctx opts [(''method'', Str method)])) of
        Inl e \<Rightarrow> []
      | Inr r \<Rightarrow> fst (encode_body env r) @
          (case snd (encode_body env r) of
             Inl e \<Rightarrow> []
           | Inr f \<Rightarrow> Got (url_of ctx path) f #
               (case got env (url_of ctx path) f of
                  Inl e \<Rightarrow> []
                | Inr response \<Rightarrow> [Parse (get_prop response ''body'')])))"
  by (simp add: withBody_def fst_await snd_await parse_body_def split: sum.splits)

lemma post_index_trace:
  "fst (post_index env ctx path (Some opts)) =
     fst (resolve_body (merge_options ctx opts [])) @
     (case snd (resolve_body (merge_options ctx opts [])) of
        Inl e \<Rightarrow> []
      | Inr r \<Rightarrow> fst (encode_body env r) @
          (case snd (encode_body env r) of
             Inl e \<Rightarrow> []
           | Inr f \<Rightarrow> GotPost (url_of ctx path) f #
               (case got_post env (url_of ctx path) f of
                  Inl e \<Rightarrow> []
                | Inr response \<Rightarrow> [Parse (get_prop response ''body'')])))"
  by (simp add: post_index_def fst_await snd_await parse_body_def split: sum.splits)

lemma merge_options_get_prop:
  "k \<noteq> ''cache'' \<Longrightarrow>
   get_prop (merge_options ctx opts forced) k =
     get_prop ([(''headers'', Obj [])] @ genericGotOptions ctx @ opts @ forced) k"
  by (simp add: merge_options_def Let_def)

lemma own_get_prop: "own obj k = Some v \<Longrightarrow> get_prop obj k = v \<and> has_own obj k"
  using own_None_iff[of obj k] by (simp add: get_prop_def)

lemma merge_options_body:
  assumes "own opts ''body'' = Some b"
  shows "get_prop (merge_options ctx opts [(''method'', Str method)]) ''body'' = b"
    and "get_prop (merge_options ctx opts []) ''body'' = b"
  using own_get_prop[OF assms]
  by (simp_all add: merge_options_get_prop get_prop_append del: append_Cons)

lemma api_requests:
  "requests (fst (api env ctx path options)) =
     [(url_of ctx path, genericGotOptions ctx @ spread_arg options)]"
  by (simp add: api_def Let_def)

lemma json_trace:
  "fst (json env ctx path options) =
     Got (url_of ctx path) (genericGotOptions ctx @ spread_arg options) #
       (case got env (url_of ctx path) (genericGotOptions ctx @ spread_arg options) of
          Inl e \<Rightarrow> []
        | Inr response \<Rightarrow> [Parse (get_prop response ''body'')])"
  by (simp add: json_def api_def Let_def fst_await parse_body_def split: sum.splits)

lemma json_result:
  "snd (json env ctx path options) =
     (case got env (url_of ctx path) (genericGotOptions ctx @ spread_arg options) of
        Inl e \<Rightarrow> Inl e
      | Inr response \<Rightarrow> JSON_parse env (get_prop response ''body''))"
  by (simp add: json_def api_def Let_def snd_await parse_body_def split: sum.splits)

lemma delete_trace:
  "fst (delete env ctx path options) =
     Got (url_of ctx path)
       (genericGotOptions ctx @ spread_arg options @ [(''method'', Str ''DELETE'')]) #
       (case got env (url_of ctx path)
               (genericGotOptions ctx @ spread_arg options @ [(''method'', Str ''DELETE'')]) of
          Inl e \<Rightarrow> []
        | Inr response \<Rightarrow> [Parse (get_prop response ''body'')])"
  by (simp add: delete_def api_def Let_def fst_await parse_body_def spread_arg_def
      split: sum.splits)

lemma delete_result:
  "snd (delete env ctx path options) =
     (case got env (url_of ctx path)
             (genericGotOptions ctx @ spread_arg options @ [(''method'', Str ''DELETE'')]) of
        Inl e \<Rightarrow> Inl e
      | Inr response \<Rightarrow> JSON_parse env (get_prop response ''body''))"
  by (simp add: delete_def api_def Let_def snd_await parse_body_def spread_arg_def
      split: sum.splits)

lemma requests_case_sum [simp]:
  "requests (case x of Inl e \<Rightarrow> [] | Inr response \<Rightarrow> [Parse (g response)]) = []"
  by (cases x) simp_all

lemma own_append_absent: "\<not> has_own b k \<Longrightarrow> own (a @ b) k = own a k"
  using own_None_iff[of b k] by (simp add: own_append)

lemma withBody_request_cache:
  assumes "(u, final) \<in> set (requests (fst (withBody env ctx method path (Some opts))))"
    and "has_own final ''cache''"
  shows "truthy (get_prop opts ''cache'') \<and> own final ''cache'' = own opts ''cache''"
proof -
  let ?m = "merge_options ctx opts [(''method'', Str method)]"
  from assms(1) have "\<exists>r. snd (resolve_body ?m) = Inr r \<and> snd (encode_body env r) = Inr final"
    by (cases "snd (resolve_body ?m)")
       (auto simp: withBody_requests split: sum.splits)
  then obtain r where r: "snd (resolve_body ?m) = Inr r"
    and f: "snd (encode_body env r) = Inr final" by blast
  have own: "own final ''cache'' = own ?m ''cache''" and has: "has_own final ''cache'' = has_own ?m ''cache''"
    using final_has_own[OF r f, of "''cache''"] by simp_all
  from has assms(2) have t: "truthy (get_prop opts ''cache'')"
    using merge_options_cache_falsy[of opts ctx "[(''method'', Str method)]"] by auto
  with own show ?thesis using merge_options_cache_truthy[of opts ctx "method"] by simp
qed

lemma post_index_request_cache:
  assumes "(u, final) \<in> set (requests (fst (post_index env ctx path (Some opts))))"
    and "has_own final ''cache''"
  shows "truthy (get_prop opts ''cache'') \<and> own final ''cache'' = own opts ''cache''"
proof -
  let ?m = "merge_options ctx opts []"
  from assms(1) have "\<exists>r. snd (resolve_body ?m) = Inr r \<and> snd (encode_body env r) = Inr final"
    by (cases "snd (resolve_body ?m)")
       (auto simp: post_index_requests split: sum.splits)
  then obtain r where r: "snd (resolve_body ?m) = Inr r"
    and f: "snd (encode_body env r) = Inr final" by blast
  have own: "own final ''cache'' = own ?m ''cache''" and has: "has_own final ''cache'' = has_own ?m ''cache''"
    using final_has_own[OF r f, of "''cache''"] by simp_all
  from has assms(2) have t: "truthy (get_prop opts ''cache'')"
    using merge_options_cache_falsy[of opts ctx "[]"] by auto
  with own show ?thesis using merge_options_cache_truthy[of opts ctx "method"] by simp
qed

lemma encode_body_events:
  "CallBody \<notin> set (fst (encode_body env r))"
  "MultipartGetHeaders True \<notin> set (fst (encode_body env r))"
  "Stringify b \<in> set (fst (encode_body env r)) \<Longrightarrow> b = get_prop r ''body''"
  "Stringify b \<in> set (fst (encode_body env r)) \<Longrightarrow> \<forall>data. get_prop r ''body'' \<noteq> Multipart data"
  "MultipartBuffer \<in> set (fst (encode_body env r)) \<longleftrightarrow> (\<exists>data. get_prop r ''body'' = Multipart data)"
proof -
  show "CallBody \<notin> set (fst (encode_body env r))"
    and "MultipartGetHeaders True \<notin> set (fst (encode_body env r))"
    and "Stringify b \<in> set (fst (encode_body env r)) \<Longrightarrow> b = get_prop r ''body''"
    using encode_body_trace[of env r] by auto
  show "Stringify b \<in> set (fst (encode_body env r)) \<Longrightarrow> \<forall>data. get_prop r ''body'' \<noteq> Multipart data"
    by (auto simp: encode_body_Multipart split: sum.splits)
  show "MultipartBuffer \<in> set (fst (encode_body env r)) \<longleftrightarrow> (\<exists>data. get_prop r ''body'' = Multipart data)"
  proof (cases "\<exists>data. get_prop r ''body'' = Multipart data")
    case True
    then show ?thesis by (auto simp: encode_body_Multipart split: sum.splits)
  next
    case False
    then show ?thesis by (simp add: encode_body_other split: sum.splits)
  qed
qed

lemma after_call_body:
  assumes "tail = fst (encode_body env r) @
      (case snd (encode_body env r) of
         Inl e \<Rightarrow> []
       | Inr f \<Rightarrow> req f # (case outcome f of Inl e \<Rightarrow> [] | Inr response \<Rightarrow> [Parse (g response)]))"
    and "\<forall>f. req f \<noteq> CallBody" and "\<forall>f. req f \<noteq> MultipartBuffer"
    and "\<forall>f b. req f \<noteq> Stringify b"
  shows "CallBody \<notin> set tail"
    and "Stringify b \<in> set tail \<Longrightarrow> b = get_prop r ''body''"
    and "MultipartBuffer \<in> set tail \<longleftrightarrow> (\<exists>data. get_prop r ''body'' = Multipart data)"
proof -
  have sets: "ev \<in> set tail \<Longrightarrow>
      ev \<in> set (fst (encode_body env r)) \<or> (\<exists>f. req f = ev) \<or> (\<exists>x. Parse x = ev)" for ev
    unfolding assms(1) by (auto split: sum.splits)
  have sub: "ev \<in> set (fst (encode_body env r)) \<Longrightarrow> ev \<in> set tail" for ev
    unfolding assms(1) by simp
  show "CallBody \<notin> set tail"
    using sets[of CallBody] encode_body_events(1)[of env r] assms(2) by auto
  show "Stringify b \<in> set tail \<Longrightarrow> b = get_prop r ''body''"
    using sets[of "Stringify b"] encode_body_events(3)[of b env r] assms(4) by auto
  show "MultipartBuffer \<in> set tail \<longleftrightarrow> (\<exists>data. get_prop r ''body'' = Multipart data)"
    using sets[of MultipartBuffer] sub[of MultipartBuffer] encode_body_events(5)[of env r] assms(3)
    by auto
qed

lemma merge_options_own:
  "k \<noteq> ''cache'' \<Longrightarrow>
   own (merge_options ctx opts forced) k =
     own ([(''headers'', Obj [])] @ genericGotOptions ctx @ opts @ forced) k"
  by (simp add: merge_options_def Let_def)

lemma merge_options_plain:
  assumes "k \<noteq> ''cache''" and "k \<noteq> ''headers''" and "k \<noteq> ''method''"
  shows "get_prop (merge_options ctx opts [(''method'', Str method)]) k
           = get_prop (genericGotOptions ctx @ opts) k"
    and "get_prop (merge_options ctx opts []) k = get_prop (genericGotOptions ctx @ opts) k"
  using assms by (simp_all add: get_prop_def merge_options_own own_append own_Cons
      split: option.splits)

lemma merge_options_headers:
  "get_prop (merge_options ctx opts [(''method'', Str method)]) ''headers''
     = (case own opts ''headers'' of
          Some h \<Rightarrow> h
        | None \<Rightarrow> (case own (genericGotOptions ctx) ''headers'' of
                     Some h \<Rightarrow> h | None \<Rightarrow> Obj []))"
  "get_prop (merge_options ctx opts []) ''headers''
     = (case own opts ''headers'' of
          Some h \<Rightarrow> h
        | None \<Rightarrow> (case own (genericGotOptions ctx) ''headers'' of
                     Some h \<Rightarrow> h | None \<Rightarrow> Obj []))"
  by (simp_all add: get_prop_def merge_options_own own_append own_Cons
      split: option.splits)

lemma resolve_to_value:
  assumes "get_prop m ''body'' = b"
    and "(v = b \<and> (\<forall>r. b \<noteq> Func r)) \<or> b = Func (Inr v)"
  shows "\<exists>pre r0. resolve_body m = (pre, Inr r0) \<and> (pre = [] \<or> pre = [CallBody])
           \<and> get_prop r0 ''body'' = v \<and> (r0 = m \<or> r0 = assign m ''body'' v)"
  using assms by (auto simp: resolve_body_Func resolve_body_other)

lemma resolved_other_props:
  "r0 = m \<or> r0 = assign m ''body'' v \<Longrightarrow> k \<noteq> ''body'' \<Longrightarrow> get_prop r0 k = get_prop m k"
  by auto

lemma multipart_encoding:
  assumes "get_prop m ''body'' = b"
    and "b = Multipart data \<or> b = Func (Inr (Multipart data))"
  shows "\<exists>pre r0. resolve_body m = (pre, Inr r0) \<and> (pre = [] \<or> pre = [CallBody])
     \<and> encode_body env r0 =
        (case mp_buffer data of
           Inl e \<Rightarrow> ([MultipartBuffer], Inl e)
         | Inr bytes \<Rightarrow>
             ([MultipartBuffer, MultipartGetHeaders False],
              Inr (assign (assign r0 ''body'' (Buffer bytes)) ''headers''
                (Obj (header_obj (mp_getHeaders data False) @ spread (get_prop m ''headers''))))))"
proof -
  from assms have "(Multipart data = b \<and> (\<forall>r. b \<noteq> Func r)) \<or> b = Func (Inr (Multipart data))"
    by auto
  from resolve_to_value[OF assms(1) this] obtain pre r0 where
    r: "resolve_body m = (pre, Inr r0)" "pre = [] \<or> pre = [CallBody]"
      "get_prop r0 ''body'' = Multipart data" "r0 = m \<or> r0 = assign m ''body'' (Multipart data)"
    by blast
  have "get_prop r0 ''headers'' = get_prop m ''headers''"
    using resolved_other_props[OF r(4), of "''headers''"] by simp
  with r show ?thesis
    by (simp add: encode_body_Multipart split: sum.splits)
qed

lemma multipart_withBody:
  assumes "get_prop (genericGotOptions ctx @ opts) ''body'' = b"
    and "b = Multipart data \<or> b = Func (Inr (Multipart data))"
  shows "(let m = merge_options ctx opts [(''method'', Str method)];
              r = withBody env ctx method path (Some opts);
              headers = header_obj (mp_getHeaders data False) @ spread (get_prop m ''headers'')
          in (\<forall>ev \<in> set (fst r). \<not> is_stringify ev)
           \<and> MultipartGetHeaders True \<notin> set (fst r)
           \<and> (case mp_buffer data of
                Inl e \<Rightarrow> snd r = Inl e \<and> requests (fst r) = []
              | Inr bytes \<Rightarrow>
                  MultipartGetHeaders False \<in> set (fst r)
                  \<and> (\<exists>final. requests (fst r) = [(url_of ctx path, final)]
                        \<and> get_prop final ''body'' = Buffer bytes
                        \<and> get_prop final ''headers'' = Obj headers)))"
proof -
  let ?m = "merge_options ctx opts [(''method'', Str method)]"
  have "get_prop ?m ''body'' = b"
    using assms(1) by (simp add: merge_options_plain)
  from multipart_encoding[OF this assms(2), of env] obtain pre r0 where
    r: "resolve_body ?m = (pre, Inr r0)" "pre = [] \<or> pre = [CallBody]"
    and e: "encode_body env r0 =
        (case mp_buffer data of
           Inl e \<Rightarrow> ([MultipartBuffer], Inl e)
         | Inr bytes \<Rightarrow>
             ([MultipartBuffer, MultipartGetHeaders False],
              Inr (assign (assign r0 ''body'' (Buffer bytes)) ''headers''
                (Obj (header_obj (mp_getHeaders data False) @ spread (get_prop ?m ''headers''))))))"
    by blast
  show ?thesis
    using r(2)
    by (auto simp: Let_def withBody_trace withBody_result withBody_requests r(1) e
        split: sum.splits)
qed

lemma multipart_post_index:
  assumes "get_prop (genericGotOptions ctx @ opts) ''body'' = b"
    and "b = Multipart data \<or> b = Func (Inr (Multipart data))"
  shows "(let m = merge_options ctx opts [];
              r = post_index env ctx path (Some opts);
              headers = header_obj (mp_getHeaders data False) @ spread (get_prop m ''headers'')
          in (\<forall>ev \<in> set (fst r). \<not> is_stringify ev)
           \<and> MultipartGetHeaders True \<notin> set (fst r)
           \<and> (case mp_buffer data of
                Inl e \<Rightarrow> snd r = Inl e \<and> requests (fst r) = []
              | Inr bytes \<Rightarrow>
                  MultipartGetHeaders False \<in> set (fst r)
                  \<and> (\<exists>final. requests (fst r) = [(url_of ctx path, final)]
                        \<and> get_prop final ''body'' = Buffer bytes
                        \<and> get_prop final ''headers'' = Obj headers)))"
proof -
  let ?m = "merge_options ctx opts []"
  have "get_prop ?m ''body'' = b"
    using assms(1) by (simp add: merge_options_plain)
  from multipart_encoding[OF this assms(2), of env] obtain pre r0 where
    r: "resolve_body ?m = (pre, Inr r0)" "pre = [] \<or> pre = [CallBody]"
    and e: "encode_body env r0 =
        (case mp_buffer data of
           Inl e \<Rightarrow> ([MultipartBuffer], Inl e)
         | Inr bytes \<Rightarrow>
             ([MultipartBuffer, MultipartGetHeaders False],
              Inr (assign (assign r0 ''body'' (Buffer bytes)) ''headers''
                (Obj (header_obj (mp_getHeaders data False) @ spread (get_prop ?m ''headers''))))))"
    by blast
  show ?thesis
    using r(2)
    by (auto simp: Let_def post_index_trace post_index_result post_index_requests r(1) e
        split: sum.splits)
qed

lemma plain_encoding:
  assumes "get_prop m ''body'' = b"
    and "(v = b \<and> (\<forall>r. b \<noteq> Func r)) \<or> b = Func (Inr v)"
    and "\<forall>data. v \<noteq> Multipart data"
  shows "\<exists>pre r0. resolve_body m = (pre, Inr r0) \<and> (pre = [] \<or> pre = [CallBody])
     \<and> (r0 = m \<or> r0 = assign m ''body'' v) \<and> get_prop r0 ''body'' = v
     \<and> encode_body env r0 =
        (if get_prop m ''json'' \<noteq> Bool False then
           (case JSON_stringify env v of
              Inl e \<Rightarrow> ([Stringify v], Inl e)
            | Inr s \<Rightarrow>
                ([Stringify v],
                 Inr (assign (assign r0 ''body'' s) ''headers''
                   (Obj ([(''Content-Type'', Str ''application/json'')]
                         @ spread (get_prop m ''headers''))))))
         else ([], Inr r0))"
proof -
  from resolve_to_value[OF assms(1,2)] obtain pre r0 where
    r: "resolve_body m = (pre, Inr r0)" "pre = [] \<or> pre = [CallBody]"
      "get_prop r0 ''body'' = v" "r0 = m \<or> r0 = assign m ''body'' v"
    by blast
  have "get_prop r0 ''headers'' = get_prop m ''headers''" "get_prop r0 ''json'' = get_prop m ''json''"
    using resolved_other_props[OF r(4), of "''headers''"] resolved_other_props[OF r(4), of "''json''"]
    by simp_all
  with r assms(3) show ?thesis
    by (simp add: encode_body_other split: sum.splits)
qed

lemma plain_withBody:
  assumes "get_prop (genericGotOptions ctx @ opts) ''body'' = b"
    and "(v = b \<and> (\<forall>r. b \<noteq> Func r)) \<or> b = Func (Inr v)"
    and "\<forall>data. v \<noteq> Multipart data"
  shows "(let m = merge_options ctx opts [(''method'', Str method)];
              r = withBody env ctx method path (Some opts)
          in if get_prop (genericGotOptions ctx @ opts) ''json'' \<noteq> Bool False then
               (case JSON_stringify env v of
                  Inl e \<Rightarrow> snd r = Inl e \<and> requests (fst r) = []
                | Inr s \<Rightarrow>
                    Stringify v \<in> set (fst r)
                    \<and> (\<exists>final. requests (fst r) = [(url_of ctx path, final)]
                          \<and> get_prop final ''body'' = s
                          \<and> get_prop final ''headers'' =
                              Obj ([(''Content-Type'', Str ''application/json'')]
                                   @ spread (get_prop m ''headers''))))
             else
               (\<forall>ev \<in> set (fst r). \<not> is_stringify ev)
               \<and> (\<exists>final. requests (fst r) = [(url_of ctx path, final)]
                     \<and> (final = m \<or> final = assign m ''body'' v)
                     \<and> get_prop final ''body'' = v
                     \<and> get_prop final ''headers'' = get_prop m ''headers''))"
proof -
  let ?m = "merge_options ctx opts [(''method'', Str method)]"
  have b: "get_prop ?m ''body'' = b"
    and j: "get_prop ?m ''json'' = get_prop (genericGotOptions ctx @ opts) ''json''"
    using assms(1) by (simp_all add: merge_options_plain)
  from plain_encoding[OF b assms(2,3), of env] obtain pre r0 where
    r: "resolve_body ?m = (pre, Inr r0)" "pre = [] \<or> pre = [CallBody]"
      "r0 = ?m \<or> r0 = assign ?m ''body'' v" "get_prop r0 ''body'' = v"
    and e: "encode_body env r0 =
        (if get_prop ?m ''json'' \<noteq> Bool False then
           (case JSON_stringify env v of
              Inl e \<Rightarrow> ([Stringify v], Inl e)
            | Inr s \<Rightarrow>
                ([Stringify v],
                 Inr (assign (assign r0 ''body'' s) ''headers''
                   (Obj ([(''Content-Type'', Str ''application/json'')]
                         @ spread (get_prop ?m ''headers''))))))
         else ([], Inr r0))"
    by blast
  have h: "get_prop r0 ''headers'' = get_prop ?m ''headers''"
    using resolved_other_props[OF r(3), of "''headers''"] by simp
  show ?thesis
    using r(2,3,4) h
    by (auto simp: Let_def withBody_trace withBody_result withBody_requests r(1) e j
        split: sum.splits)
qed

lemma plain_post_index:
  assumes "get_prop (genericGotOptions ctx @ opts) ''body'' = b"
    and "(v = b \<and> (\<forall>r. b \<noteq> Func r)) \<or> b = Func (Inr v)"
    and "\<forall>data. v \<noteq> Multipart data"
  shows "(let m = merge_options ctx opts [];
              r = post_index env ctx path (Some opts)
          in if get_prop (genericGotOptions ctx @ opts) ''json'' \<noteq> Bool False then
               (case JSON_stringify env v of
                  Inl e \<Rightarrow> snd r = Inl e \<and> requests (fst r) = []
                | Inr s \<Rightarrow>
                    Stringify v \<in> set (fst r)
                    \<and> (\<exists>final. requests (fst r) = [(url_of ctx path, final)]
                          \<and> get_prop final ''body'' = s
                          \<and> get_prop final ''headers'' =
                              Obj ([(''Content-Type'', Str ''application/json'')]
                                   @ spread (get_prop m ''headers''))))
             else
               (\<forall>ev \<in> set (fst r). \<not> is_stringify ev)
               \<and> (\<exists>final. requests (fst r) = [(url_of ctx path, final)]
                     \<and> (final = m \<or> final = assign m ''body'' v)
                     \<and> get_prop final ''body'' = v
                     \<and> get_prop final ''headers'' = get_prop m ''headers''))"
proof -
  let ?m = "merge_options ctx opts []"
  have b: "get_prop ?m ''body'' = b"
    and j: "get_prop ?m ''json'' = get_prop (genericGotOptions ctx @ opts) ''json''"
    using assms(1) by (simp_all add: merge_options_plain)
  from plain_encoding[OF b assms(2,3), of env] obtain pre r0 where
    r: "resolve_body ?m = (pre, Inr r0)" "pre = [] \<or> pre = [CallBody]"
      "r0 = ?m \<or> r0 = assign ?m ''body'' v" "get_prop r0 ''body'' = v"
    and e: "encode_body env r0 =
        (if get_prop ?m ''json'' \<noteq> Bool False then
           (case JSON_stringify env v of
              Inl e \<Rightarrow> ([Stringify v], Inl e)
            | Inr s \<Rightarrow>
                ([Stringify v],
                 Inr (assign (assign r0 ''body'' s) ''headers''
                   (Obj ([(''Content-Type'', Str ''application/json'')]
                         @ spread (get_prop ?m ''headers''))))))
         else ([], Inr r0))"
    by blast
  have h: "get_prop r0 ''headers'' = get_prop ?m ''headers''"
    using resolved_other_props[OF r(3), of "''headers''"] by simp
  show ?thesis
    using r(2,3,4) h
    by (auto simp: Let_def post_index_trace post_index_result post_index_requests r(1) e j
        split: sum.splits)
qed

lemma json_headers_lookup:
  "own ([(''Content-Type'', Str ''application/json'')] @ hs) k =
     (case own hs k of
        Some x \<Rightarrow> Some x
      | None \<Rightarrow> if k = ''Content-Type'' then Some (Str ''application/json'') else None)"
  using own_append[of "[(''Content-Type'', Str ''application/json'')]" hs k]
  by (simp split: option.splits del: append_Cons)

lemma withBody_propagates:
  "(requests (fst (withBody env ctx method path options)) = []
      \<and> (\<exists>e. snd (withBody env ctx method path options) = Inl e))
   \<or> (\<exists>final. requests (fst (withBody env ctx method path options)) = [(url_of ctx path, final)]
        \<and> snd (withBody env ctx method path options) =
            (case got env (url_of ctx path) final of
               Inl e \<Rightarrow> Inl e
             | Inr response \<Rightarrow> JSON_parse env (get_prop response ''body'')))"
proof (cases options)
  case None
  then show ?thesis by (simp add: withBody_def)
next
  case (Some opts)
  then show ?thesis
    by (auto simp: withBody_requests withBody_result split: sum.splits)
qed

lemma post_index_propagates:
  "(requests (fst (post_index env ctx path options)) = []
      \<and> (\<exists>e. snd (post_index env ctx path options) = Inl e))
   \<or> (\<exists>final. requests (fst (post_index env ctx path options)) = [(url_of ctx path, final)]
        \<and> snd (post_index env ctx path options) =
            (case got_post env (url_of ctx path) final of
               Inl e \<Rightarrow> Inl e
             | Inr response \<Rightarrow> JSON_parse env (get_prop response ''body'')))"
proof (cases options)
  case None
  then show ?thesis by (simp add: post_index_def)
next
  case (Some opts)
  then show ?thesis
    by (auto simp: post_index_requests post_index_result split: sum.splits)
qed

lemma teardown_trace:
  "fst (teardown inst) =
     (if stop inst = Absent then [] else [Stop])
     @ (if (\<exists>e. stop inst = RejectsWith e) \<or> checkStopped inst = Absent then []
        else [CheckStopped])"
  by (cases "stop inst"; cases "checkStopped inst")
     (simp_all add: teardown_def call_hook_def await_def)

lemma teardown_result:
  "snd (teardown inst) =
     (case stop inst of
        RejectsWith e \<Rightarrow> Inl e
      | _ \<Rightarrow> (case checkStopped inst of RejectsWith e \<Rightarrow> Inl e | _ \<Rightarrow> Inr ()))"
  by (cases "stop inst"; cases "checkStopped inst")
     (simp_all add: teardown_def call_hook_def await_def)

lemma setup_body_trace:
  "fst (setup_body new inst) =
     NewContext #
       (case new inst of
          Inl e \<Rightarrow> []
        | Inr ctx \<Rightarrow>
            (if start inst = Absent then [] else [Start])
            @ (if (\<exists>e. start inst = RejectsWith e) then [] else [BeforeEach, Teardown]))"
  by (cases "new inst"; cases "start inst")
     (simp_all add: setup_body_def call_hook_def await_def)

lemma setup_body_result:
  "snd (setup_body new inst) = Inr h \<Longrightarrow>
   \<exists>ctx. new inst = Inr ctx \<and> on_beforeEach h = beforeEach ctx \<and> on_teardown h = teardown inst"
  by (cases "new inst"; cases "start inst")
     (auto simp: setup_body_def call_hook_def await_def)

text \<open>The constructor on names that meet nothing of the class, and on \<open>baseURL\<close>.\<close>

lemma mix_in_plain:
  "\<forall>name \<in> set ids. name \<noteq> ''__proto__'' \<and> name \<noteq> ''baseURL'' \<and> name \<notin> set class_members \<Longrightarrow>
   mix_in table replaced altered props ids
     = Inr (altered, props @ map (\<lambda>name. (name, get_prop table name)) ids)"
  by (induction ids arbitrary: props) (simp_all add: assign_def)

lemma new_TAPContextGot_plain:
  assumes "instances inst = Some ids"
    and "\<forall>name \<in> set ids. name \<noteq> ''__proto__'' \<and> name \<noteq> ''baseURL'' \<and> name \<notin> set class_members"
  shows "new_TAPContextGot inst =
     Inr (Whole
       \<lparr>integrationInstance = inst,
        httpError = default_httpError,
        genericGotOptions = default_genericGotOptions,
        mixed_in = delete_prop (map (\<lambda>name. (name, get_prop (members inst) name)) ids)
                     ''defaultInstance'',
        ctx_defaultInstance = defaultInstance inst\<rparr>)"
  using assms mix_in_plain[OF assms(2), of "members inst" False False "[]"]
  by (simp add: new_TAPContextGot_def)

lemma mix_in_baseURL:
  "''baseURL'' \<in> set ids \<Longrightarrow> ''__proto__'' \<notin> set ids \<Longrightarrow>
   mix_in table False altered props ids = Inl getter_only_error"
  by (induction ids arbitrary: altered props) auto

lemma new_TAPContextGot_baseURL:
  "instances inst = Some ids \<Longrightarrow> ''baseURL'' \<in> set ids \<Longrightarrow> ''__proto__'' \<notin> set ids \<Longrightarrow>
   new_TAPContextGot inst = Inl getter_only_error"
  by (simp add: new_TAPContextGot_def mix_in_baseURL)

lemma mix_in_altered:
  "''baseURL'' \<notin> set ids \<Longrightarrow> ''__proto__'' \<notin> set ids \<Longrightarrow>
   map_sum id fst (mix_in table replaced altered props ids)
     = Inr (altered \<or> (\<exists>name \<in> set ids. name \<in> set class_members))"
proof (induction ids arbitrary: altered props)
  case Nil
  then show ?case by simp
next
  case (Cons name ids)
  then have "name \<noteq> ''baseURL''" "name \<noteq> ''__proto__''"
    "''baseURL'' \<notin> set ids" "''__proto__'' \<notin> set ids"
    by auto
  with Cons.IH[of "altered \<or> name \<in> set class_members" "assign props name (get_prop table name)"]
  show ?case by auto
qed

lemma new_TAPContextGot_altered:
  assumes "instances inst = Some ids" and "''baseURL'' \<notin> set ids" and "''__proto__'' \<notin> set ids"
    and "name \<in> set ids" and "name \<in> set class_members"
  shows "\<exists>props. new_TAPContextGot inst = Inr (Altered props)"
proof -
  from mix_in_altered[OF assms(2,3), of "members inst" False False "[]"] assms(4,5)
  have "map_sum id fst (mix_in (members inst) False False [] ids) = Inr True"
    by auto
  then obtain props where "mix_in (members inst) False False [] ids = Inr (True, props)"
    by (cases "mix_in (members inst) False False [] ids") auto
  with assms(1) show ?thesis by (simp add: new_TAPContextGot_def)
qed

lemma rejects_passes_iff:
  "rejects_passes outcome expected \<longleftrightarrow>
     (\<exists>e. outcome = Inl e \<and> regexp_test expected (err_message e))"
  by (cases outcome) (simp_all add: rejects_passes_def)

lemma reports_append [simp]: "reports (a @ b) = reports a @ reports b"
  by (simp add: reports_def map_filter_def)

lemma reports_Nil [simp]: "reports [] = []"
  by (simp add: reports_def map_filter_def)

lemma reports_Cons [simp]:
  "reports (ev # t) = (case report_of ev of None \<Rightarrow> reports t | Some r \<Rightarrow> r # reports t)"
  by (simp add: reports_def map_filter_def split: option.splits)

lemma reports_body_steps [simp]:
  "reports (fst (resolve_body m)) = []" "reports (fst (encode_body env r)) = []"
  using resolve_body_trace[of m] encode_body_trace[of env r] by auto

lemma reports_operations [simp]:
  "reports (fst (json env ctx path options)) = []"
  "reports (fst (delete env ctx path options)) = []"
  "reports (fst (withBody env ctx method path (Some opts))) = []"
  "reports (fst (post_index env ctx path (Some opts))) = []"
  by (simp_all add: json_trace delete_trace withBody_trace post_index_trace split: sum.splits)

lemma reports_same_match_rejects:
  "reports (fst r) = [] \<Longrightarrow> reports (report_same r expected message extra) = [(message, extra)]"
  "reports (fst r) = [] \<Longrightarrow> reports (report_match r expected message extra) = [(message, extra)]"
  "reports (fst r) = [] \<Longrightarrow> reports (report_rejects env ctx r error message extra) = [(message, extra)]"
  by (simp_all add: report_same_def report_match_def report_rejects_def split: sum.splits)

text \<open>
  In \<^verbatim>\<open>part_000\<close> every assertion called without a message reports once, with the method and
  the path as message and with the caller's \<open>extra\<close>; so do the two failure assertions of
  \<^verbatim>\<open>index.js\<close>.
\<close>

lemma default_messages_name_the_method:
  "reports (apiRejects env ctx path options error Undefined extra) =
     [(Str ((case get_prop (spread_arg options) ''method'' of
               Undefined \<Rightarrow> ''GET'' | Null \<Rightarrow> ''GET'' | m \<Rightarrow> to_string env m) @ '' '' @ path),
       extra)]"
  "reports (checkGet env ctx path expected Undefined extra) = [(Str (''GET '' @ path), extra)]"
  "reports (matchGet env ctx path expected Undefined extra) = [(Str (''GET '' @ path), extra)]"
  "reports (checkGetError env ctx path error Undefined extra) = [(Str (''GET '' @ path), extra)]"
  "reports (checkPost env ctx path body expected Undefined extra) = [(Str (''POST '' @ path), extra)]"
  "reports (checkPostError env ctx path body error Undefined extra) = [(Str (''POST '' @ path), extra)]"
  "reports (checkPut env ctx path body expected Undefined extra) = [(Str (''PUT '' @ path), extra)]"
  "reports (checkPutError env ctx path body error Undefined extra) = [(Str (''PUT '' @ path), extra)]"
  "reports (checkDelete env ctx path expected Undefined extra) = [(Str (''DELETE '' @ path), extra)]"
  "reports (checkDeleteError env ctx path error Undefined extra) = [(Str (''DELETE '' @ path), extra)]"
  "reports (checkGetError_index env ctx path error Undefined extra) = [(Str (''GET '' @ path), extra)]"
  "reports (checkPostError_index env ctx path body error Undefined extra)
     = [(Str (''POST '' @ path), extra)]"
  by (simp_all add: apiRejects_def checkGet_def matchGet_def checkGetError_def checkPost_def
      checkPostError_def checkPut_def checkPutError_def checkDelete_def checkDeleteError_def
      checkGetError_index_def checkPostError_index_def post_def put_def Let_def
      reports_same_match_rejects or_default_def)

text \<open>The success assertions of \<^verbatim>\<open>index.js\<close> called without a message report the path alone.\<close>

lemma index_default_messages_are_the_path:
  "reports (checkGet_index env ctx path expected Undefined extra) = [(Str path, extra)]"
  "reports (matchGet_index env ctx path expected Undefined extra) = [(Str path, extra)]"
  "reports (checkPost_index env ctx path body expected Undefined extra) = [(Str path, extra)]"
  by (simp_all add: checkGet_index_def matchGet_index_def checkPost_index_def
      reports_same_match_rejects or_default_def)

lemmas eval_defs =
  post_def put_def withBody_def post_index_def delete_def json_def api_def merge_options_def
  resolve_body_def encode_body_def parse_body_def await_def url_of_def spread_arg_def
  get_prop_def own_def has_own_def assign_def delete_prop_def header_obj_def
  requests_def reports_def map_filter_def
  sample_env_def sample_ctx_def sample_instance_def
  default_genericGotOptions_def default_httpError_def

section \<open>The claims\<close>

text \<open>
  C1. When the body of a call of \<open>post\<close> or \<open>put\<close> (and of \<open>post\<close> of \<^verbatim>\<open>index.js\<close>) is a
  multipart handle, given as such or returned by a body function, \<open>JSON.stringify\<close> is never
  called and the headers are asked for with \<open>getHeaders(false)\<close> only, whatever \<open>json\<close> is.
  When the handle's buffer rejects, the call rejects with the same error and makes no request.
  Otherwise it makes one request, whose body is the buffer and whose headers are the handle's
  headers followed by the headers of the merged options: looking a name up gives the caller's
  value when the caller has one and the handle's value otherwise, so no
  \<open>Content-Type: application/json\<close> is added.
\<close>

theorem multipart_body_bypasses_json:
  assumes "get_prop (genericGotOptions ctx @ opts) ''body'' = b"
    and "b = Multipart data \<or> b = Func (Inr (Multipart data))"
  shows "(let m = merge_options ctx opts [(''method'', Str method)];
              r = withBody env ctx method path (Some opts);
              headers = header_obj (mp_getHeaders data False) @ spread (get_prop m ''headers'')
          in (\<forall>ev \<in> set (fst r). \<not> is_stringify ev)
           \<and> MultipartGetHeaders True \<notin> set (fst r)
           \<and> (case mp_buffer data of
                Inl e \<Rightarrow> snd r = Inl e \<and> requests (fst r) = []
              | Inr bytes \<Rightarrow>
                  MultipartGetHeaders False \<in> set (fst r)
                  \<and> (\<exists>final. requests (fst r) = [(url_of ctx path, final)]
                        \<and> get_prop final ''body'' = Buffer bytes
                        \<and> get_prop final ''headers'' = Obj headers)))
       \<and> (let m = merge_options ctx opts [];
              r = post_index env ctx path (Some opts);
              headers = header_obj (mp_getHeaders data False) @ spread (get_prop m ''headers'')
          in (\<forall>ev \<in> set (fst r). \<not> is_stringify ev)
           \<and> MultipartGetHeaders True \<notin> set (fst r)
           \<and> (case mp_buffer data of
                Inl e \<Rightarrow> snd r = Inl e \<and> requests (fst r) = []
              | Inr bytes \<Rightarrow>
                  MultipartGetHeaders False \<in> set (fst r)
                  \<and> (\<exists>final. requests (fst r) = [(url_of ctx path, final)]
                        \<and> get_prop final ''body'' = Buffer bytes
                        \<and> get_prop final ''headers'' = Obj headers)))
       \<and> (\<forall>m \<in> {merge_options ctx opts [(''method'', Str method)], merge_options ctx opts []}.
            get_prop m ''headers'' =
              (case own opts ''headers'' of
                 Some h \<Rightarrow> h
               | None \<Rightarrow> (case own (genericGotOptions ctx) ''headers'' of
                            Some h \<Rightarrow> h | None \<Rightarrow> Obj []))
            \<and> (\<forall>k. own (header_obj (mp_getHeaders data False) @ spread (get_prop m ''headers'')) k =
                  (case own (spread (get_prop m ''headers'')) k of
                     Some v \<Rightarrow> Some v
                   | None \<Rightarrow> own (header_obj (mp_getHeaders data False)) k)))"
  using multipart_withBody[OF assms, of "method" env path]
    multipart_post_index[OF assms, of env path]
  by (simp add: merge_options_headers own_append)

theorem multipart_body_bypasses_json_witness:
  "get_prop (genericGotOptions sample_ctx @
       [(''body'', Multipart sample_multipart), (''json'', Bool True),
        (''headers'', Obj [(''x-kind'', Str ''mine'')])]) ''body'' = Multipart sample_multipart
   \<and> withBody sample_env sample_ctx ''POST'' ''/upload''
        (Some [(''body'', Multipart sample_multipart), (''json'', Bool True),
               (''headers'', Obj [(''x-kind'', Str ''mine'')])])
     = ([MultipartBuffer, MultipartGetHeaders False,
         Got ''http://localhost/upload''
           [(''headers'', Obj []), (''timeout'', Num 10000), (''cookieJar'', CookieJar),
            (''body'', Multipart sample_multipart), (''json'', Bool True),
            (''headers'', Obj [(''x-kind'', Str ''mine'')]), (''method'', Str ''POST''),
            (''body'', Buffer [45, 45, 120]),
            (''headers'',
             Obj [(''content-type'', Str ''multipart/form-data; boundary=x''),
                  (''x-kind'', Str ''form''), (''x-kind'', Str ''mine'')])],
         Parse (Str ''{}'')],
        Inr (Obj []))
   \<and> own [(''content-type'', Str ''multipart/form-data; boundary=x''),
           (''x-kind'', Str ''form''), (''x-kind'', Str ''mine'')] ''x-kind'' = Some (Str ''mine'')
   \<and> own [(''content-type'', Str ''multipart/form-data; boundary=x''),
           (''x-kind'', Str ''form''), (''x-kind'', Str ''mine'')] ''Content-Type'' = None"
proof -
  have here: "get_prop (genericGotOptions sample_ctx @
       [(''body'', Multipart sample_multipart), (''json'', Bool True),
        (''headers'', Obj [(''x-kind'', Str ''mine'')])]) ''body'' = Multipart sample_multipart"
    by (simp add: eval_defs)
  have handle: "Multipart sample_multipart = Multipart sample_multipart
      \<or> Multipart sample_multipart = Func (Inr (Multipart sample_multipart))"
    by simp
  have computed: ?thesis
    by (simp add: eval_defs sample_multipart_def)
  show ?thesis
    using multipart_body_bypasses_json
      [OF here handle, of "''POST''" sample_env "''/upload''"]
    by - (rule computed)
qed

text \<open>
  C2. When the caller's \<open>body\<close> is a function, the call invokes it exactly once, as the first
  thing it does after merging the options. When the function throws, the call rejects with what
  it threw. When it returns \<open>v\<close>, what is classified is \<open>v\<close>: the multipart branch is taken
  exactly when \<open>v\<close> is a multipart handle, only \<open>v\<close> is ever given to \<open>JSON.stringify\<close>, and
  the options of the request are the encoding of the merged options with \<open>body\<close> set to \<open>v\<close>.
\<close>

theorem function_body_is_invoked_once:
  assumes "own opts ''body'' = Some (Func f)"
  shows "(let m = merge_options ctx opts [(''method'', Str method)];
              r = withBody env ctx method path (Some opts)
          in (\<exists>t. fst r = CallBody # t \<and> CallBody \<notin> set t) \<and>
             (case f of
                Inl e \<Rightarrow> r = ([CallBody], Inl e)
              | Inr v \<Rightarrow>
                  (\<forall>b. Stringify b \<in> set (fst r) \<longrightarrow> b = v) \<and>
                  (MultipartBuffer \<in> set (fst r) \<longleftrightarrow> (\<exists>data. v = Multipart data)) \<and>
                  requests (fst r) =
                    (case snd (encode_body env (assign m ''body'' v)) of
                       Inl e \<Rightarrow> []
                     | Inr final \<Rightarrow> [(url_of ctx path, final)])))
       \<and> (let m = merge_options ctx opts [];
              r = post_index env ctx path (Some opts)
          in (\<exists>t. fst r = CallBody # t \<and> CallBody \<notin> set t) \<and>
             (case f of
                Inl e \<Rightarrow> r = ([CallBody], Inl e)
              | Inr v \<Rightarrow>
                  (\<forall>b. Stringify b \<in> set (fst r) \<longrightarrow> b = v) \<and>
                  (MultipartBuffer \<in> set (fst r) \<longleftrightarrow> (\<exists>data. v = Multipart data)) \<and>
                  requests (fst r) =
                    (case snd (encode_body env (assign m ''body'' v)) of
                       Inl e \<Rightarrow> []
                     | Inr final \<Rightarrow> [(url_of ctx path, final)])))"
proof (cases f)
  case (Inl e)
  have "resolve_body (merge_options ctx opts [(''method'', Str method)]) = ([CallBody], Inl e)"
    "resolve_body (merge_options ctx opts []) = ([CallBody], Inl e)"
    using merge_options_body[OF assms, of ctx] Inl by (simp_all add: resolve_body_Func)
  then have "withBody env ctx method path (Some opts) = ([CallBody], Inl e)"
    "post_index env ctx path (Some opts) = ([CallBody], Inl e)"
    by (simp_all add: withBody_def post_index_def await_def)
  with Inl show ?thesis by simp
next
  case (Inr v)
  let ?m = "merge_options ctx opts [(''method'', Str method)]"
  let ?n = "merge_options ctx opts []"
  have res: "resolve_body ?m = ([CallBody], Inr (assign ?m ''body'' v))"
    "resolve_body ?n = ([CallBody], Inr (assign ?n ''body'' v))"
    using merge_options_body[OF assms, of ctx] Inr by (simp_all add: resolve_body_Func)
  define t where "t = fst (encode_body env (assign ?m ''body'' v)) @
      (case snd (encode_body env (assign ?m ''body'' v)) of
         Inl e \<Rightarrow> []
       | Inr f \<Rightarrow> Got (url_of ctx path) f #
           (case got env (url_of ctx path) f of
              Inl e \<Rightarrow> [] | Inr response \<Rightarrow> [Parse (get_prop response ''body'')]))"
  define s where "s = fst (encode_body env (assign ?n ''body'' v)) @
      (case snd (encode_body env (assign ?n ''body'' v)) of
         Inl e \<Rightarrow> []
       | Inr f \<Rightarrow> GotPost (url_of ctx path) f #
           (case got_post env (url_of ctx path) f of
              Inl e \<Rightarrow> [] | Inr response \<Rightarrow> [Parse (get_prop response ''body'')]))"
  have tr: "fst (withBody env ctx method path (Some opts)) = CallBody # t"
    "fst (post_index env ctx path (Some opts)) = CallBody # s"
    by (simp_all add: withBody_trace post_index_trace res t_def s_def)
  have rq: "requests t =
        (case snd (encode_body env (assign ?m ''body'' v)) of
           Inl e \<Rightarrow> [] | Inr final \<Rightarrow> [(url_of ctx path, final)])"
    "requests s =
        (case snd (encode_body env (assign ?n ''body'' v)) of
           Inl e \<Rightarrow> [] | Inr final \<Rightarrow> [(url_of ctx path, final)])"
    by (simp_all add: t_def s_def split: sum.splits)
  have t: "CallBody \<notin> set t" "\<And>b. Stringify b \<in> set t \<Longrightarrow> b = v"
    "MultipartBuffer \<in> set t \<longleftrightarrow> (\<exists>data. v = Multipart data)"
    using after_call_body[OF t_def] by simp_all
  have s: "CallBody \<notin> set s" "\<And>b. Stringify b \<in> set s \<Longrightarrow> b = v"
    "MultipartBuffer \<in> set s \<longleftrightarrow> (\<exists>data. v = Multipart data)"
    using after_call_body[OF s_def] by simp_all
  show ?thesis
    unfolding Let_def Inr sum.case tr using t s rq by auto
qed

theorem function_body_is_invoked_once_witness:
  "own [(''body'', Func (Inr (Num 5)))] ''body'' = Some (Func (Inr (Num 5)))
   \<and> withBody sample_env sample_ctx ''PUT'' ''/widgets'' (Some [(''body'', Func (Inr (Num 5)))])
     = ([CallBody, Stringify (Num 5),
         Got ''http://localhost/widgets''
           [(''headers'', Obj []), (''timeout'', Num 10000), (''cookieJar'', CookieJar),
            (''body'', Func (Inr (Num 5))), (''method'', Str ''PUT''), (''body'', Num 5),
            (''body'', Str ''5''),
            (''headers'', Obj [(''Content-Type'', Str ''application/json'')])],
         Parse (Str ''{}'')],
        Inr (Obj []))"
proof -
  have here: "own [(''body'', Func (Inr (Num 5)))] ''body'' = Some (Func (Inr (Num 5)))"
    by (simp add: eval_defs)
  have computed: ?thesis
    by (simp add: eval_defs show_int_def show_nat.simps)
  show ?thesis
    using function_body_is_invoked_once
      [OF here, of sample_ctx "''PUT''" sample_env "''/widgets''"]
    by - (rule computed)
qed

text \<open>
  C3. A call of \<open>post\<close> or \<open>put\<close> (and of \<open>post\<close> of \<^verbatim>\<open>index.js\<close>) whose options carry a
  falsy \<open>cache\<close> either rejects before any request is made, or makes exactly one request, and
  the options of that request have no \<open>cache\<close> key at all, whatever the default options hold.
\<close>

theorem falsy_cache_is_removed:
  assumes "has_own opts ''cache''" and "\<not> truthy (get_prop opts ''cache'')"
  shows "((\<exists>e. snd (post env ctx path (Some opts)) = Inl e
             \<and> requests (fst (post env ctx path (Some opts))) = [])
          \<or> (\<exists>final. requests (fst (post env ctx path (Some opts))) = [(url_of ctx path, final)]
             \<and> \<not> has_own final ''cache''))
       \<and> ((\<exists>e. snd (put env ctx path (Some opts)) = Inl e
             \<and> requests (fst (put env ctx path (Some opts))) = [])
          \<or> (\<exists>final. requests (fst (put env ctx path (Some opts))) = [(url_of ctx path, final)]
             \<and> \<not> has_own final ''cache''))
       \<and> ((\<exists>e. snd (post_index env ctx path (Some opts)) = Inl e
             \<and> requests (fst (post_index env ctx path (Some opts))) = [])
          \<or> (\<exists>final. requests (fst (post_index env ctx path (Some opts))) = [(url_of ctx path, final)]
             \<and> \<not> has_own final ''cache''))"
  using assms(2) withBody_falsy_cache[of "Some opts" env ctx _ path]
    post_index_falsy_cache[of "Some opts" env ctx path]
  by (simp add: post_def put_def spread_arg_def)

theorem falsy_cache_is_removed_witness:
  "has_own [(''cache'', Bool False), (''body'', Obj [])] ''cache''
   \<and> \<not> truthy (get_prop [(''cache'', Bool False), (''body'', Obj [])] ''cache'')
   \<and> has_own (genericGotOptions sample_ctx) ''cache''
   \<and> (\<exists>final. requests (fst (post sample_env sample_ctx ''/widgets''
                  (Some [(''cache'', Bool False), (''body'', Obj [])])))
                = [(''http://localhost/widgets'', final)]
              \<and> \<not> has_own final ''cache'' \<and> has_own final ''timeout'')
   \<and> (\<exists>final. requests (fst (post_index sample_env sample_ctx ''/widgets''
                  (Some [(''cache'', Bool False), (''body'', Obj [])])))
                = [(''http://localhost/widgets'', final)]
              \<and> \<not> has_own final ''cache'' \<and> has_own final ''timeout'')"
proof -
  have here: "has_own [(''cache'', Bool False), (''body'', Obj [])] ''cache''"
    "\<not> truthy (get_prop [(''cache'', Bool False), (''body'', Obj [])] ''cache'')"
    by (simp_all add: eval_defs)
  have computed: ?thesis
    by (simp add: eval_defs)
  show ?thesis
    using falsy_cache_is_removed[OF here, of sample_env sample_ctx "''/widgets''"]
    by - (rule computed)
qed

text \<open>
  C4. Called without a message, \<open>checkGet\<close> of \<^verbatim>\<open>index.js\<close> reports the path alone as message,
  not \<open>GET\<close> followed by the path as \<open>checkGet\<close> of \<^verbatim>\<open>part_000\<close> and \<open>checkGetError\<close> of
  \<^verbatim>\<open>index.js\<close> do; the \<open>extra\<close> object is forwarded as given.
\<close>

theorem index_checkGet_reports_path_without_method:
  "checkGet_index sample_env sample_ctx ''/widgets/1'' (Obj []) Undefined
       (Obj [(''todo'', Bool True)])
     = [Got ''http://localhost/widgets/1''
          [(''cache'', CacheMap), (''timeout'', Num 10000), (''cookieJar'', CookieJar)],
        Parse (Str ''{}''),
        StrictSame (Obj []) (Obj []) (Str ''/widgets/1'') (Obj [(''todo'', Bool True)])]
   \<and> reports (checkGet_index sample_env sample_ctx ''/widgets/1'' (Obj []) Undefined
                (Obj [(''todo'', Bool True)]))
       \<noteq> [(Str ''GET /widgets/1'', Obj [(''todo'', Bool True)])]
   \<and> reports (checkGet sample_env sample_ctx ''/widgets/1'' (Obj []) Undefined
                (Obj [(''todo'', Bool True)]))
       = [(Str ''GET /widgets/1'', Obj [(''todo'', Bool True)])]
   \<and> reports (checkGetError_index sample_env sample_ctx ''/widgets/1'' (Num 404) Undefined
                (Obj [(''todo'', Bool True)]))
       = [(Str ''GET /widgets/1'', Obj [(''todo'', Bool True)])]"
  by (simp add: eval_defs checkGet_index_def checkGet_def checkGetError_index_def
      report_same_def report_rejects_def or_default_def Let_def to_string_def show_int_def
      show_nat.simps)

text \<open>
  C5. When a pattern is registered under the key, each failure assertion performs its operation
  and then reports once, through \<open>rejects\<close>, how the operation settled together with that
  pattern; the report passes exactly when the operation rejected with an error whose message
  matches the pattern.
\<close>

theorem failure_assertions_use_registered_pattern:
  assumes "own (httpError ctx) (to_string env error) = Some expected"
  shows "(let r = json env ctx path None
          in checkGetError env ctx path error message extra
               = fst r @ [Rejects (snd r) (Some expected) (or_default message (''GET '' @ path)) extra]
             \<and> checkGetError_index env ctx path error message extra
               = fst r @ [Rejects (snd r) (Some expected) (or_default message (''GET '' @ path)) extra]
             \<and> (rejects_passes (snd r) expected \<longleftrightarrow>
                  (\<exists>e. snd r = Inl e \<and> regexp_test expected (err_message e))))
       \<and> (let r = post env ctx path (Some [(''body'', body)])
          in checkPostError env ctx path body error message extra
               = fst r @ [Rejects (snd r) (Some expected) (or_default message (''POST '' @ path)) extra]
             \<and> (rejects_passes (snd r) expected \<longleftrightarrow>
                  (\<exists>e. snd r = Inl e \<and> regexp_test expected (err_message e))))
       \<and> (let r = post_index env ctx path (Some [(''body'', body)])
          in checkPostError_index env ctx path body error message extra
               = fst r @ [Rejects (snd r) (Some expected) (or_default message (''POST '' @ path)) extra]
             \<and> (rejects_passes (snd r) expected \<longleftrightarrow>
                  (\<exists>e. snd r = Inl e \<and> regexp_test expected (err_message e))))
       \<and> (let r = put env ctx path (Some [(''body'', body)])
          in checkPutError env ctx path body error message extra
               = fst r @ [Rejects (snd r) (Some expected) (or_default message (''PUT '' @ path)) extra]
             \<and> (rejects_passes (snd r) expected \<longleftrightarrow>
                  (\<exists>e. snd r = Inl e \<and> regexp_test expected (err_message e))))
       \<and> (let r = delete env ctx path None
          in checkDeleteError env ctx path error message extra
               = fst r @ [Rejects (snd r) (Some expected) (or_default message (''DELETE '' @ path)) extra]
             \<and> (rejects_passes (snd r) expected \<longleftrightarrow>
                  (\<exists>e. snd r = Inl e \<and> regexp_test expected (err_message e))))"
  using assms
  by (simp add: Let_def checkGetError_def checkGetError_index_def checkPostError_def
      checkPostError_index_def checkPutError_def checkDeleteError_def report_rejects_def
      rejects_passes_iff)

theorem failure_assertions_use_registered_pattern_witness:
  "own (httpError sample_ctx) (to_string sample_env (Num 404)) = Some (RegExp ''Response code 404'')
   \<and> checkGetError sample_env sample_ctx ''/missing'' (Num 404) Undefined Undefined
     = [Got ''http://localhost/missing''
          [(''cache'', CacheMap), (''timeout'', Num 10000), (''cookieJar'', CookieJar)],
        Rejects (Inl (JsError ''HTTPError'' ''Response code 404 (Not Found)''))
          (Some (RegExp ''Response code 404'')) (Str ''GET /missing'') Undefined]
   \<and> rejects_passes (Inl (JsError ''HTTPError'' ''Response code 404 (Not Found)''))
         (RegExp ''Response code 404'')
   \<and> checkGetError sample_env sample_ctx ''/widgets'' (Num 404) Undefined Undefined
     = [Got ''http://localhost/widgets''
          [(''cache'', CacheMap), (''timeout'', Num 10000), (''cookieJar'', CookieJar)],
        Parse (Str ''{}''),
        Rejects (Inr (Obj [])) (Some (RegExp ''Response code 404'')) (Str ''GET /widgets'')
          Undefined]
   \<and> \<not> rejects_passes (Inr (Obj [])) (RegExp ''Response code 404'')
   \<and> \<not> rejects_passes (Inl (JsError ''HTTPError'' ''Response code 405 (Method Not Allowed)''))
         (RegExp ''Response code 404'')"
proof -
  have here: "own (httpError sample_ctx) (to_string sample_env (Num 404))
                = Some (RegExp ''Response code 404'')"
    by (simp add: eval_defs to_string_def show_int_def show_nat.simps)
  have computed: ?thesis
    by (simp add: eval_defs to_string_def show_int_def show_nat.simps checkGetError_def
        report_rejects_def or_default_def rejects_passes_def regexp_test_def)
  show ?thesis
    using failure_assertions_use_registered_pattern
      [OF here, of "''/missing''" Undefined Undefined Undefined]
    by - (rule computed)
qed

text \<open>
  C6. When the body, after a body function has been resolved, is \<open>v\<close> and \<open>v\<close> is not a
  multipart handle: unless \<open>json\<close> is \<open>false\<close>, \<open>JSON.stringify(v)\<close> is called; when it throws
  the call rejects without a request, and otherwise the one request has its result as body and
  the headers \<open>{'Content-Type': 'application/json', ...headers}\<close>, in which a
  \<open>Content-Type\<close> of the caller wins. When \<open>json\<close> is \<open>false\<close>, nothing is stringified and
  the one request has the body \<open>v\<close> and the headers of the merged options, unchanged.
\<close>

theorem other_body_is_json_encoded_unless_json_false:
  assumes "get_prop (genericGotOptions ctx @ opts) ''body'' = b"
    and "(v = b \<and> (\<forall>r. b \<noteq> Func r)) \<or> b = Func (Inr v)"
    and "\<forall>data. v \<noteq> Multipart data"
  shows "(let m = merge_options ctx opts [(''method'', Str method)];
              r = withBody env ctx method path (Some opts)
          in if get_prop (genericGotOptions ctx @ opts) ''json'' \<noteq> Bool False then
               (case JSON_stringify env v of
                  Inl e \<Rightarrow> snd r = Inl e \<and> requests (fst r) = []
                | Inr s \<Rightarrow>
                    Stringify v \<in> set (fst r)
                    \<and> (\<exists>final. requests (fst r) = [(url_of ctx path, final)]
                          \<and> get_prop final ''body'' = s
                          \<and> get_prop final ''headers'' =
                              Obj ([(''Content-Type'', Str ''application/json'')]
                                   @ spread (get_prop m ''headers''))))
             else
               (\<forall>ev \<in> set (fst r). \<not> is_stringify ev)
               \<and> (\<exists>final. requests (fst r) = [(url_of ctx path, final)]
                     \<and> (final = m \<or> final = assign m ''body'' v)
                     \<and> get_prop final ''body'' = v
                     \<and> get_prop final ''headers'' = get_prop m ''headers''))
       \<and> (let m = merge_options ctx opts [];
              r = post_index env ctx path (Some opts)
          in if get_prop (genericGotOptions ctx @ opts) ''json'' \<noteq> Bool False then
               (case JSON_stringify env v of
                  Inl e \<Rightarrow> snd r = Inl e \<and> requests (fst r) = []
                | Inr s \<Rightarrow>
                    Stringify v \<in> set (fst r)
                    \<and> (\<exists>final. requests (fst r) = [(url_of ctx path, final)]
                          \<and> get_prop final ''body'' = s
                          \<and> get_prop final ''headers'' =
                              Obj ([(''Content-Type'', Str ''application/json'')]
                                   @ spread (get_prop m ''headers''))))
             else
               (\<forall>ev \<in> set (fst r). \<not> is_stringify ev)
               \<and> (\<exists>final. requests (fst r) = [(url_of ctx path, final)]
                     \<and> (final = m \<or> final = assign m ''body'' v)
                     \<and> get_prop final ''body'' = v
                     \<and> get_prop final ''headers'' = get_prop m ''headers''))
       \<and> (\<forall>m \<in> {merge_options ctx opts [(''method'', Str method)], merge_options ctx opts []}.
            get_prop m ''headers'' =
              (case own opts ''headers'' of
                 Some h \<Rightarrow> h
               | None \<Rightarrow> (case own (genericGotOptions ctx) ''headers'' of
                            Some h \<Rightarrow> h | None \<Rightarrow> Obj []))
            \<and> (\<forall>k. own ([(''Content-Type'', Str ''application/json'')]
                         @ spread (get_prop m ''headers'')) k =
                  (case own (spread (get_prop m ''headers'')) k of
                     Some x \<Rightarrow> Some x
                   | None \<Rightarrow> if k = ''Content-Type'' then Some (Str ''application/json'')
                             else None)))"
  using plain_withBody[OF assms, of "method" env path]
    plain_post_index[OF assms, of env path]
  by (simp add: merge_options_headers json_headers_lookup del: append_Cons)

theorem other_body_is_json_encoded_unless_json_false_witness:
  "get_prop (genericGotOptions sample_ctx @
       [(''body'', Num 7), (''headers'', Obj [(''Content-Type'', Str ''text/plain'')])]) ''body''
     = Num 7
   \<and> withBody sample_env sample_ctx ''POST'' ''/widgets''
        (Some [(''body'', Num 7), (''headers'', Obj [(''Content-Type'', Str ''text/plain'')])])
     = ([Stringify (Num 7),
         Got ''http://localhost/widgets''
           [(''headers'', Obj []), (''timeout'', Num 10000), (''cookieJar'', CookieJar),
            (''body'', Num 7), (''headers'', Obj [(''Content-Type'', Str ''text/plain'')]),
            (''method'', Str ''POST''), (''body'', Str ''7''),
            (''headers'',
             Obj [(''Content-Type'', Str ''application/json''),
                  (''Content-Type'', Str ''text/plain'')])],
         Parse (Str ''{}'')],
        Inr (Obj []))
   \<and> own [(''Content-Type'', Str ''application/json''), (''Content-Type'', Str ''text/plain'')]
         ''Content-Type'' = Some (Str ''text/plain'')
   \<and> get_prop (genericGotOptions sample_ctx @ [(''body'', Str ''raw''), (''json'', Bool False)])
         ''json'' = Bool False
   \<and> withBody sample_env sample_ctx ''POST'' ''/widgets''
        (Some [(''body'', Str ''raw''), (''json'', Bool False)])
     = ([Got ''http://localhost/widgets''
           [(''headers'', Obj []), (''timeout'', Num 10000), (''cookieJar'', CookieJar),
            (''body'', Str ''raw''), (''json'', Bool False), (''method'', Str ''POST'')],
         Parse (Str ''{}'')],
        Inr (Obj []))"
proof -
  have here: "get_prop (genericGotOptions sample_ctx @
       [(''body'', Num 7), (''headers'', Obj [(''Content-Type'', Str ''text/plain'')])]) ''body''
     = Num 7"
    "(Num 7 = Num 7 \<and> (\<forall>r. Num 7 \<noteq> Func r)) \<or> Num 7 = Func (Inr (Num 7))"
    "\<forall>data. Num 7 \<noteq> Multipart data"
    by (simp_all add: eval_defs)
  have there: "get_prop (genericGotOptions sample_ctx @
       [(''body'', Str ''raw''), (''json'', Bool False)]) ''body'' = Str ''raw''"
    "(Str ''raw'' = Str ''raw'' \<and> (\<forall>r. Str ''raw'' \<noteq> Func r))
       \<or> Str ''raw'' = Func (Inr (Str ''raw''))"
    "\<forall>data. Str ''raw'' \<noteq> Multipart data"
    by (simp_all add: eval_defs)
  have computed: ?thesis
    by (simp add: eval_defs show_int_def show_nat.simps)
  show ?thesis
    using other_body_is_json_encoded_unless_json_false
        [OF here, of "''POST''" sample_env "''/widgets''"]
      other_body_is_json_encoded_unless_json_false
        [OF there, of "''POST''" sample_env "''/widgets''"]
    by - (rule computed)
qed

text \<open>
  C7. \<open>delete\<close> makes one request, to the URL of the path, with the default options overridden
  by the caller's and \<open>method\<close> set to \<open>DELETE\<close>; it calls no body function, no multipart
  capability and no \<open>JSON.stringify\<close> (a \<open>body\<close> among the options reaches the transport as
  it was given); and it returns what \<open>JSON.parse\<close> makes of the response body.
\<close>

theorem delete_skips_the_body_steps:
  "(let final = genericGotOptions ctx @ spread_arg options @ [(''method'', Str ''DELETE'')];
        r = delete env ctx path options
    in fst r = Got (url_of ctx path) final #
                 (case got env (url_of ctx path) final of
                    Inl e \<Rightarrow> []
                  | Inr response \<Rightarrow> [Parse (get_prop response ''body'')])
     \<and> snd r = (case got env (url_of ctx path) final of
                  Inl e \<Rightarrow> Inl e
                | Inr response \<Rightarrow> JSON_parse env (get_prop response ''body''))
     \<and> CallBody \<notin> set (fst r) \<and> MultipartBuffer \<notin> set (fst r)
     \<and> (\<forall>chunked. MultipartGetHeaders chunked \<notin> set (fst r))
     \<and> (\<forall>b. Stringify b \<notin> set (fst r))
     \<and> get_prop final ''method'' = Str ''DELETE''
     \<and> (\<forall>k. k \<noteq> ''method'' \<longrightarrow>
            own final k = (case own (spread_arg options) k of
                             Some v \<Rightarrow> Some v
                           | None \<Rightarrow> own (genericGotOptions ctx) k)))"
  by (auto simp: Let_def delete_trace delete_result get_prop_def own_append
      split: sum.splits option.splits)

theorem delete_skips_the_body_steps_witness:
  "delete sample_env sample_ctx ''/widgets/1'' (Some [(''body'', Func (Inr (Num 5)))])
     = ([Got ''http://localhost/widgets/1''
           [(''cache'', CacheMap), (''timeout'', Num 10000), (''cookieJar'', CookieJar),
            (''body'', Func (Inr (Num 5))), (''method'', Str ''DELETE'')],
         Parse (Str ''{}'')],
        Inr (Obj []))"
proof -
  have computed: ?thesis
    by (simp add: eval_defs)
  show ?thesis
    using delete_skips_the_body_steps
      [of sample_ctx "Some [(''body'', Func (Inr (Num 5)))]" sample_env "''/widgets/1''"]
    by - (rule computed)
qed

text \<open>
  C8. \<open>json\<close> and \<open>delete\<close> make one request, \<open>post\<close> and \<open>put\<close> (and \<open>post\<close> of \<^verbatim>\<open>index.js\<close>)
  make one request unless they reject while preparing the body. Once the request is made, the
  call settles exactly as the transport and then \<open>JSON.parse\<close> do: a rejection of the
  transport is the rejection of the call, and otherwise the outcome of \<open>JSON.parse\<close> on the
  response body, its error included, is the outcome of the call.
\<close>

theorem errors_are_propagated_unchanged:
  "(\<exists>final. requests (fst (json env ctx path options)) = [(url_of ctx path, final)]
       \<and> snd (json env ctx path options) =
           (case got env (url_of ctx path) final of
              Inl e \<Rightarrow> Inl e
            | Inr response \<Rightarrow> JSON_parse env (get_prop response ''body'')))
   \<and> (\<exists>final. requests (fst (delete env ctx path options)) = [(url_of ctx path, final)]
       \<and> snd (delete env ctx path options) =
           (case got env (url_of ctx path) final of
              Inl e \<Rightarrow> Inl e
            | Inr response \<Rightarrow> JSON_parse env (get_prop response ''body'')))
   \<and> ((requests (fst (post env ctx path options)) = []
          \<and> (\<exists>e. snd (post env ctx path options) = Inl e))
       \<or> (\<exists>final. requests (fst (post env ctx path options)) = [(url_of ctx path, final)]
            \<and> snd (post env ctx path options) =
                (case got env (url_of ctx path) final of
                   Inl e \<Rightarrow> Inl e
                 | Inr response \<Rightarrow> JSON_parse env (get_prop response ''body''))))
   \<and> ((requests (fst (put env ctx path options)) = []
          \<and> (\<exists>e. snd (put env ctx path options) = Inl e))
       \<or> (\<exists>final. requests (fst (put env ctx path options)) = [(url_of ctx path, final)]
            \<and> snd (put env ctx path options) =
                (case got env (url_of ctx path) final of
                   Inl e \<Rightarrow> Inl e
                 | Inr response \<Rightarrow> JSON_parse env (get_prop response ''body''))))
   \<and> ((requests (fst (post_index env ctx path options)) = []
          \<and> (\<exists>e. snd (post_index env ctx path options) = Inl e))
       \<or> (\<exists>final. requests (fst (post_index env ctx path options)) = [(url_of ctx path, final)]
            \<and> snd (post_index env ctx path options) =
                (case got_post env (url_of ctx path) final of
                   Inl e \<Rightarrow> Inl e
                 | Inr response \<Rightarrow> JSON_parse env (get_prop response ''body''))))"
  using withBody_propagates[of env ctx "''POST''" path options]
    withBody_propagates[of env ctx "''PUT''" path options]
    post_index_propagates[of env ctx path options]
  by (simp add: post_def put_def json_trace json_result delete_trace delete_result)

theorem errors_are_propagated_unchanged_witness:
  "json sample_env sample_ctx ''/missing'' None
     = ([Got ''http://localhost/missing''
           [(''cache'', CacheMap), (''timeout'', Num 10000), (''cookieJar'', CookieJar)]],
        Inl (JsError ''HTTPError'' ''Response code 404 (Not Found)''))
   \<and> got sample_env ''http://localhost/missing''
         [(''cache'', CacheMap), (''timeout'', Num 10000), (''cookieJar'', CookieJar)]
     = Inl (JsError ''HTTPError'' ''Response code 404 (Not Found)'')
   \<and> json sample_env sample_ctx ''/text'' None
     = ([Got ''http://localhost/text''
           [(''cache'', CacheMap), (''timeout'', Num 10000), (''cookieJar'', CookieJar)],
         Parse (Str ''plain'')],
        Inl (JsError ''SyntaxError'' ''Unexpected token''))
   \<and> JSON_parse sample_env (Str ''plain'') = Inl (JsError ''SyntaxError'' ''Unexpected token'')
   \<and> snd (post sample_env sample_ctx ''/missing'' (Some [(''body'', Obj [])]))
     = Inl (JsError ''HTTPError'' ''Response code 404 (Not Found)'')"
proof -
  have computed: ?thesis
    by (simp add: eval_defs)
  show ?thesis
    using errors_are_propagated_unchanged[of sample_env sample_ctx "''/missing''" None]
    by - (rule computed)
qed

text \<open>
  C9. The teardown function calls \<open>stop\<close> and then \<open>checkStopped\<close>, each only when the instance
  has it (and \<open>checkStopped\<close> only when \<open>stop\<close> did not reject), and settles as they do. The
  setup constructs the context exactly once. When the constructor throws, or \<open>start\<close> rejects,
  the setup rejects with that error and registers nothing. Otherwise, \<open>start\<close> being absent or
  resolving, the setup resolves, having registered the teardown function and a \<open>beforeEach\<close>
  function that attaches the one context constructed to every test case and makes no event of
  its own. The constructor of \<^verbatim>\<open>index.js\<close> always returns.
\<close>

theorem lifecycle_order:
  "teardown inst =
     ((if stop inst = Absent then [] else [Stop])
      @ (if (\<exists>e. stop inst = RejectsWith e) \<or> checkStopped inst = Absent then []
         else [CheckStopped]),
      (case stop inst of
         RejectsWith e \<Rightarrow> Inl e
       | stopped \<Rightarrow> (case checkStopped inst of RejectsWith e \<Rightarrow> Inl e | checked \<Rightarrow> Inr ())))
   \<and> filter (\<lambda>ev. ev = NewContext) (fst (setup_test inst)) = [NewContext]
   \<and> filter (\<lambda>ev. ev = NewContext) (fst (setup_test_index inst)) = [NewContext]
   \<and> (case new_TAPContextGot inst of
         Inl e \<Rightarrow> setup_test inst = ([NewContext], Inl e)
       | Inr ctx \<Rightarrow>
           (case start inst of
              RejectsWith e \<Rightarrow> setup_test inst = ([NewContext, Start], Inl e)
            | started \<Rightarrow>
                setup_test inst =
                  (NewContext # (if start inst = Absent then [] else [Start])
                     @ [BeforeEach, Teardown],
                   Inr \<lparr>on_beforeEach = beforeEach ctx, on_teardown = teardown inst\<rparr>)
                \<and> (\<forall>t. beforeEach ctx t = ([], Inr (t\<lparr>attached := Some ctx\<rparr>)))))
   \<and> (\<exists>ctx. new_TAPContextGot_index inst = Inr (Whole ctx)
         \<and> integrationInstance ctx = inst
         \<and> (case start inst of
              RejectsWith e \<Rightarrow> setup_test_index inst = ([NewContext, Start], Inl e)
            | started \<Rightarrow>
                setup_test_index inst =
                  (NewContext # (if start inst = Absent then [] else [Start])
                     @ [BeforeEach, Teardown],
                   Inr \<lparr>on_beforeEach = beforeEach (Whole ctx), on_teardown = teardown inst\<rparr>)
                \<and> (\<forall>t. beforeEach (Whole ctx) t
                          = ([], Inr (t\<lparr>attached := Some (Whole ctx)\<rparr>)))))"
proof -
  have down: "teardown inst =
     ((if stop inst = Absent then [] else [Stop])
      @ (if (\<exists>e. stop inst = RejectsWith e) \<or> checkStopped inst = Absent then []
         else [CheckStopped]),
      (case stop inst of
         RejectsWith e \<Rightarrow> Inl e
       | stopped \<Rightarrow> (case checkStopped inst of RejectsWith e \<Rightarrow> Inl e | checked \<Rightarrow> Inr ())))"
    using teardown_trace[of inst] teardown_result[of inst] by (simp add: prod_eq_iff)
  have count: "filter (\<lambda>ev. ev = NewContext) (fst (setup_body new inst)) = [NewContext]" for new
    by (cases "new inst"; cases "start inst")
       (simp_all add: setup_body_def call_hook_def await_def)
  have up: "case new inst of
         Inl e \<Rightarrow> setup_body new inst = ([NewContext], Inl e)
       | Inr ctx \<Rightarrow>
           (case start inst of
              RejectsWith e \<Rightarrow> setup_body new inst = ([NewContext, Start], Inl e)
            | started \<Rightarrow>
                setup_body new inst =
                  (NewContext # (if start inst = Absent then [] else [Start])
                     @ [BeforeEach, Teardown],
                   Inr \<lparr>on_beforeEach = beforeEach ctx, on_teardown = teardown inst\<rparr>)
                \<and> (\<forall>t. beforeEach ctx t = ([], Inr (t\<lparr>attached := Some ctx\<rparr>))))" for new
    by (cases "new inst"; cases "start inst")
       (simp_all add: setup_body_def call_hook_def await_def beforeEach_def)
  have index: "\<exists>ctx. new_TAPContextGot_index inst = Inr (Whole ctx)
         \<and> integrationInstance ctx = inst
         \<and> (case start inst of
              RejectsWith e \<Rightarrow> setup_test_index inst = ([NewContext, Start], Inl e)
            | started \<Rightarrow>
                setup_test_index inst =
                  (NewContext # (if start inst = Absent then [] else [Start])
                     @ [BeforeEach, Teardown],
                   Inr \<lparr>on_beforeEach = beforeEach (Whole ctx), on_teardown = teardown inst\<rparr>)
                \<and> (\<forall>t. beforeEach (Whole ctx) t
                          = ([], Inr (t\<lparr>attached := Some (Whole ctx)\<rparr>))))"
    by (cases "start inst")
       (simp_all add: setup_test_index_def new_TAPContextGot_index_def setup_body_def
          call_hook_def await_def beforeEach_def)
  show ?thesis
    using down count[of new_TAPContextGot] count[of new_TAPContextGot_index]
      up[of new_TAPContextGot] index
    unfolding setup_test_def[symmetric] setup_test_index_def[symmetric]
    by blast
qed

theorem lifecycle_order_witness:
  "teardown (sample_instance\<lparr>checkStopped := Resolves\<rparr>) = ([Stop, CheckStopped], Inr ())
   \<and> teardown sample_instance = ([Stop], Inr ())
   \<and> teardown (sample_instance\<lparr>stop := Absent, checkStopped := Resolves\<rparr>)
       = ([CheckStopped], Inr ())
   \<and> new_TAPContextGot sample_instance = Inr (Whole sample_ctx)
   \<and> setup_test sample_instance
       = ([NewContext, Start, BeforeEach, Teardown],
          Inr \<lparr>on_beforeEach = beforeEach (Whole sample_ctx),
               on_teardown = teardown sample_instance\<rparr>)
   \<and> new_TAPContextGot_index sample_instance = Inr (Whole sample_ctx)
   \<and> setup_test_index (sample_instance\<lparr>start := Absent\<rparr>)
       = ([NewContext, BeforeEach, Teardown],
          Inr \<lparr>on_beforeEach = beforeEach (Whole (sample_ctx
                  \<lparr>integrationInstance := sample_instance\<lparr>start := Absent\<rparr>\<rparr>)),
               on_teardown = teardown (sample_instance\<lparr>start := Absent\<rparr>)\<rparr>)
   \<and> beforeEach (Whole sample_ctx) \<lparr>title = ''first'', attached = None\<rparr>
       = ([], Inr \<lparr>title = ''first'', attached = Some (Whole sample_ctx)\<rparr>)
   \<and> beforeEach (Whole sample_ctx) \<lparr>title = ''second'', attached = None\<rparr>
       = ([], Inr \<lparr>title = ''second'', attached = Some (Whole sample_ctx)\<rparr>)
   \<and> setup_test (sample_instance\<lparr>instances := None\<rparr>) = ([NewContext], Inl not_iterable_error)
   \<and> setup_test (sample_instance\<lparr>instances := Some [''api1'', ''baseURL'']\<rparr>)
       = ([NewContext], Inl getter_only_error)
   \<and> setup_test_index
         (sample_instance\<lparr>start := RejectsWith (JsError ''Error'' ''port in use'')\<rparr>)
       = ([NewContext, Start], Inl (JsError ''Error'' ''port in use''))"
proof -
  have computed: ?thesis
    by (simp add: teardown_def setup_test_def setup_test_index_def setup_body_def call_hook_def
        await_def beforeEach_def new_TAPContextGot_def new_TAPContextGot_index_def
        sample_instance_def sample_ctx_def class_members_def delete_prop_def assign_def
        get_prop_def own_def)
  show ?thesis
    using lifecycle_order[of sample_instance]
      lifecycle_order[of "sample_instance\<lparr>instances := Some [''api1'', ''baseURL'']\<rparr>"]
    by - (rule computed)
qed

text \<open>
  C10. When the caller gives no \<open>cache\<close> (also when it gives no options), a body-bearing call
  rejects before any request or makes one request without a \<open>cache\<close> key, while \<open>api\<close>, \<open>json\<close>
  and \<open>delete\<close> make one request whose \<open>cache\<close> is the one of the default options. And
  whenever the request of a body-bearing call has a \<open>cache\<close> key, the caller supplied a truthy
  \<open>cache\<close> and the request carries that value.
\<close>

theorem default_cache_only_on_get_path:
  assumes "\<not> has_own (spread_arg options) ''cache''"
  shows "((\<exists>e. snd (post env ctx path options) = Inl e
             \<and> requests (fst (post env ctx path options)) = [])
          \<or> (\<exists>final. requests (fst (post env ctx path options)) = [(url_of ctx path, final)]
             \<and> \<not> has_own final ''cache''))
       \<and> ((\<exists>e. snd (put env ctx path options) = Inl e
             \<and> requests (fst (put env ctx path options)) = [])
          \<or> (\<exists>final. requests (fst (put env ctx path options)) = [(url_of ctx path, final)]
             \<and> \<not> has_own final ''cache''))
       \<and> ((\<exists>e. snd (post_index env ctx path options) = Inl e
             \<and> requests (fst (post_index env ctx path options)) = [])
          \<or> (\<exists>final. requests (fst (post_index env ctx path options)) = [(url_of ctx path, final)]
             \<and> \<not> has_own final ''cache''))
       \<and> (\<exists>final. requests (fst (api env ctx path options)) = [(url_of ctx path, final)]
             \<and> own final ''cache'' = own (genericGotOptions ctx) ''cache'')
       \<and> (\<exists>final. requests (fst (json env ctx path options)) = [(url_of ctx path, final)]
             \<and> own final ''cache'' = own (genericGotOptions ctx) ''cache'')
       \<and> (\<exists>final. requests (fst (delete env ctx path options)) = [(url_of ctx path, final)]
             \<and> own final ''cache'' = own (genericGotOptions ctx) ''cache'')
       \<and> ((u, sent) \<in> set (requests (fst (post env ctx path (Some given)))
                          @ requests (fst (put env ctx path (Some given)))
                          @ requests (fst (post_index env ctx path (Some given))))
            \<and> has_own sent ''cache''
          \<longrightarrow> truthy (get_prop given ''cache'') \<and> own sent ''cache'' = own given ''cache'')"
proof -
  have falsy: "\<not> truthy (get_prop (spread_arg options) ''cache'')"
    using assms by (simp add: has_own_get_prop)
  have get: "own (genericGotOptions ctx @ spread_arg options) ''cache''
               = own (genericGotOptions ctx) ''cache''"
    "own (genericGotOptions ctx @ spread_arg options @ [(''method'', Str ''DELETE'')]) ''cache''
               = own (genericGotOptions ctx) ''cache''"
    using assms by (simp_all add: own_append_absent)
  have body: "(u, sent) \<in> set (requests (fst (post env ctx path (Some given)))
                          @ requests (fst (put env ctx path (Some given)))
                          @ requests (fst (post_index env ctx path (Some given))))
            \<and> has_own sent ''cache''
          \<longrightarrow> truthy (get_prop given ''cache'') \<and> own sent ''cache'' = own given ''cache''"
    using withBody_request_cache[of u sent env ctx _ path given]
      post_index_request_cache[of u sent env ctx path given]
    unfolding post_def put_def by auto
  have gets: "\<exists>final. requests (fst (api env ctx path options)) = [(url_of ctx path, final)]
             \<and> own final ''cache'' = own (genericGotOptions ctx) ''cache''"
    "\<exists>final. requests (fst (json env ctx path options)) = [(url_of ctx path, final)]
             \<and> own final ''cache'' = own (genericGotOptions ctx) ''cache''"
    "\<exists>final. requests (fst (delete env ctx path options)) = [(url_of ctx path, final)]
             \<and> own final ''cache'' = own (genericGotOptions ctx) ''cache''"
    using get by (simp_all add: api_requests json_trace delete_trace)
  show ?thesis
    unfolding post_def put_def
    using withBody_falsy_cache[OF falsy, of env ctx "''POST''" path]
      withBody_falsy_cache[OF falsy, of env ctx "''PUT''" path]
      post_index_falsy_cache[OF falsy, of env ctx path]
      gets body[unfolded post_def put_def]
    by blast
qed

theorem default_cache_only_on_get_path_witness:
  "\<not> has_own (spread_arg (Some [(''body'', Obj [])])) ''cache''
   \<and> own (genericGotOptions sample_ctx) ''cache'' = Some CacheMap
   \<and> (\<exists>final. requests (fst (post sample_env sample_ctx ''/widgets'' (Some [(''body'', Obj [])])))
                = [(''http://localhost/widgets'', final)] \<and> own final ''cache'' = None)
   \<and> (\<exists>final. requests (fst (json sample_env sample_ctx ''/widgets'' (Some [(''body'', Obj [])])))
                = [(''http://localhost/widgets'', final)] \<and> own final ''cache'' = Some CacheMap)
   \<and> (\<exists>final. requests (fst (delete sample_env sample_ctx ''/widgets'' (Some [(''body'', Obj [])])))
                = [(''http://localhost/widgets'', final)] \<and> own final ''cache'' = Some CacheMap)
   \<and> (\<exists>final. requests (fst (post sample_env sample_ctx ''/widgets''
                   (Some [(''body'', Obj []), (''cache'', Num 1)])))
                = [(''http://localhost/widgets'', final)] \<and> own final ''cache'' = Some (Num 1))"
proof -
  have here: "\<not> has_own (spread_arg (Some [(''body'', Obj [])])) ''cache''"
    by (simp add: eval_defs)
  have computed: ?thesis
    by (simp add: eval_defs)
  show ?thesis
    using default_cache_only_on_get_path
      [OF here, of sample_env sample_ctx "''/widgets''"]
    by - (rule computed)
qed


end
